theory Spec2Isabelle
  imports Complex_Main "HOL-Library.Sublist"
begin

section \<open>Python strings\<close>

text \<open>
  A Python \<open>str\<close> is modelled as a \<open>string\<close>: a list of code points below 256 (type
  \<open>char\<close>), the Latin-1 range of Python's \<open>str\<close>. The functions below are the builtins
  that \<open>src/load.py\<close> calls, written for that range.
\<close>

text \<open>\<open>str.isspace\<close> on one code point: the code points below 256 that Python counts as
  whitespace are 9..13, 28..32, 133 and 160.\<close>

definition py_isspace :: "char \<Rightarrow> bool" where
  "py_isspace c =
     (let n = (of_char c :: nat)
      in (9 \<le> n \<and> n \<le> 13) \<or> (28 \<le> n \<and> n \<le> 32) \<or> n = 133 \<or> n = 160)"

text \<open>\<open>s.strip()\<close>: whitespace removed at both ends.\<close>

definition py_strip :: "string \<Rightarrow> string" where
  "py_strip s = rev (dropWhile py_isspace (rev (dropWhile py_isspace s)))"

text \<open>\<open>s.split()\<close> with no separator: the maximal runs of non-whitespace, in order. The first
  argument is the word being read.\<close>

fun ws_split :: "string \<Rightarrow> string \<Rightarrow> string list" where
  "ws_split w [] = (if w = [] then [] else [w])"
| "ws_split w (c # cs) =
     (if py_isspace c then (if w = [] then ws_split [] cs else w # ws_split [] cs)
      else ws_split (w @ [c]) cs)"

definition py_split_ws :: "string \<Rightarrow> string list" where
  "py_split_ws s = ws_split [] s"

text \<open>\<open>sep.join(ws)\<close>.\<close>

fun py_join :: "string \<Rightarrow> string list \<Rightarrow> string" where
  "py_join sep [] = []"
| "py_join sep [w] = w"
| "py_join sep (w # v # ws) = w @ sep @ py_join sep (v # ws)"

text \<open>\<open>s.lower()\<close>: below 256 the cased capitals are A..Z (65..90) and the Latin-1 capitals
  192..222 without the multiplication sign 215; each moves up by 32.\<close>

definition py_lower_char :: "char \<Rightarrow> char" where
  "py_lower_char c =
     (let n = (of_char c :: nat)
      in if (65 \<le> n \<and> n \<le> 90) \<or> (192 \<le> n \<and> n \<le> 222 \<and> n \<noteq> 215)
         then char_of (n + 32) else c)"

definition py_lower :: "string \<Rightarrow> string" where
  "py_lower s = map py_lower_char s"

text \<open>\<open>s.replace(old, new)\<close> for one-character \<open>old\<close> and \<open>new\<close>.\<close>

definition py_replace_char :: "char \<Rightarrow> char \<Rightarrow> string \<Rightarrow> string" where
  "py_replace_char old new s = map (\<lambda>c. if c = old then new else c) s"

text \<open>\<open>a in b\<close> on strings: \<open>a\<close> occurs in \<open>b\<close> as a contiguous run.\<close>

fun py_in :: "string \<Rightarrow> string \<Rightarrow> bool" where
  "py_in a [] = (a = [])"
| "py_in a (y # ys) = (prefix a (y # ys) \<or> py_in a ys)"

text \<open>\<open>s.split(sep)\<close> for a one-character separator: never an empty list.\<close>

fun py_split :: "char \<Rightarrow> string \<Rightarrow> string list" where
  "py_split sep [] = [[]]"
| "py_split sep (c # cs) =
     (if c = sep then [] # py_split sep cs
      else (case py_split sep cs of
              [] \<Rightarrow> [[c]]
            | w # ws \<Rightarrow> (c # w) # ws))"

text \<open>Python raises where HOL would return an unspecified value; the errors of the program
  are values.\<close>

datatype error = IndexError | KeyError | ValueError | TypeError | StoreError

definition ebind :: "error + 'a \<Rightarrow> ('a \<Rightarrow> error + 'b) \<Rightarrow> error + 'b" where
  "ebind r f = (case r of Inl e \<Rightarrow> Inl e | Inr x \<Rightarrow> f x)"

text \<open>\<open>xs[i]\<close> on a list: position \<open>i\<close> from the front when \<open>i\<close> is not negative, position
  \<open>len(xs) + i\<close> when it is, and \<open>IndexError\<close> when that position does not exist.\<close>

definition py_getitem :: "'a list \<Rightarrow> int \<Rightarrow> error + 'a" where
  "py_getitem xs i =
     (if 0 \<le> i \<and> i < int (length xs) then Inr (xs ! nat i)
      else if i < 0 \<and> - i \<le> int (length xs) then Inr (xs ! nat (int (length xs) + i))
      else Inl IndexError)"

section \<open>Column labels\<close>

datatype date = Date (year: nat) (month: nat) (day: nat)

text \<open>
  \<open>normalize_cols\<close> is declared on \<open>List[str]\<close>, and \<open>map_dataframe\<close> hands it the labels of a
  data frame, which may be any Python object. The one thing the code does with a label is
  \<open>str(c)\<close>, so a label is a string, an integer, a boolean, \<open>None\<close>, a \<open>datetime.date\<close>, or any
  other object, which is taken by what its \<open>__str__\<close> does: return a string or raise (a float
  label is such an object, with its \<open>repr\<close> as the string).
\<close>

datatype label =
    LStr string
  | LInt int
  | LBool bool
  | LNone
  | LDate date
  | LObj "error + string"

text \<open>Decimal digits of a natural number, and the digits of an \<open>int\<close> with its sign.\<close>

definition digit_char :: "nat \<Rightarrow> char" where
  "digit_char d = char_of (48 + d)"

fun digits :: "nat \<Rightarrow> string" where
  "digits n = (if n < 10 then [digit_char n] else digits (n div 10) @ [digit_char (n mod 10)])"

declare digits.simps [simp del]

definition py_str_int :: "int \<Rightarrow> string" where
  "py_str_int i = (if i < 0 then CHR ''-'' # digits (nat (- i)) else digits (nat i))"

text \<open>Digits padded with zeros on the left to a width, as \<open>%04d\<close> and \<open>%02d\<close> do.\<close>

definition zero_pad :: "nat \<Rightarrow> nat \<Rightarrow> string" where
  "zero_pad w n = replicate (w - length (digits n)) CHR ''0'' @ digits n"

text \<open>\<open>date.isoformat()\<close>, which is also \<open>str\<close> of a date: \<open>YYYY-MM-DD\<close>.\<close>

definition isoformat :: "date \<Rightarrow> string" where
  "isoformat d = zero_pad 4 (year d) @ ''-'' @ zero_pad 2 (month d) @ ''-'' @ zero_pad 2 (day d)"

text \<open>
  \<open>str(c)\<close>. CPython (3.11 and later, and the security releases of 3.7 to 3.10) refuses to
  convert an \<open>int\<close> of more than 4300 decimal digits, that is one whose absolute value is at
  least \<open>10 ** 4300\<close>, and raises \<open>ValueError\<close>.
\<close>

definition int_max_str :: int where
  "int_max_str = 10 ^ 4300"

fun label_str :: "label \<Rightarrow> error + string" where
  "label_str (LStr s) = Inr s"
| "label_str (LInt i) = (if int_max_str \<le> \<bar>i\<bar> then Inl ValueError else Inr (py_str_int i))"
| "label_str (LBool b) = Inr (if b then ''True'' else ''False'')"
| "label_str LNone = Inr ''None''"
| "label_str (LDate d) = Inr (isoformat d)"
| "label_str (LObj r) = r"

section \<open>Header Normalizer: \<open>normalize_cols\<close>\<close>

text \<open>The body of the loop of \<open>normalize_cols\<close> after \<open>str(c)\<close>: strip, collapse the inner
  whitespace, lower, spaces to underscores.\<close>

definition normalize_header :: "string \<Rightarrow> string" where
  "normalize_header s0 =
     (let s = py_strip s0;
          s = py_join '' '' (py_split_ws s);
          s = py_replace_char CHR '' '' CHR ''_'' (py_lower s)
      in s)"

text \<open>The loop of \<open>normalize_cols\<close>, with the list \<open>out\<close> it appends to; an error raised by
  \<open>str(c)\<close> leaves the loop and the function.\<close>

fun normalize_cols_loop :: "label list \<Rightarrow> string list \<Rightarrow> error + string list" where
  "normalize_cols_loop [] out = Inr out"
| "normalize_cols_loop (c # cs) out =
     ebind (label_str c) (\<lambda>s. normalize_cols_loop cs (out @ [normalize_header s]))"

definition normalize_cols :: "label list \<Rightarrow> error + string list" where
  "normalize_cols cols = normalize_cols_loop cols []"

section \<open>Schema Mapper: the first loop of \<open>map_dataframe\<close>\<close>

definition TARGET_COLS :: "string list" where
  "TARGET_COLS =
     [''outlet'', ''date'', ''day'', ''guest_count'', ''category'', ''quantity'', ''cost_price'',
      ''selling_price'', ''total_sales'', ''total_cost_price'', ''profit'']"

text \<open>The condition of the inner loop, with Python's left-to-right \<open>or\<close>: the two \<open>split\<close>
  expressions are evaluated only when the tests before them have failed.\<close>

definition approx_match :: "string \<Rightarrow> string \<Rightarrow> error + bool" where
  "approx_match tgt c =
     (if py_in tgt c then Inr True
      else if py_in c tgt then Inr True
      else ebind (py_getitem (py_split CHR ''_'' tgt) 0) (\<lambda>a.
           if py_in a c then Inr True
           else ebind (py_getitem (py_split CHR ''_'' tgt) (- 1)) (\<lambda>b. Inr (py_in b c))))"

text \<open>The inner loop \<open>for c in df.columns\<close>: the first label that passes, where \<open>break\<close> leaves the
  loop; \<open>None\<close> when the loop runs to its end.\<close>

fun find_approx :: "string \<Rightarrow> string list \<Rightarrow> error + string option" where
  "find_approx tgt [] = Inr None"
| "find_approx tgt (c # cs) =
     ebind (approx_match tgt c) (\<lambda>b. if b then Inr (Some c) else find_approx tgt cs)"

text \<open>The outer loop \<open>for tgt in TARGET_COLS\<close> over the dict \<open>col_map\<close>.\<close>

fun col_map_loop ::
  "string list \<Rightarrow> string list \<Rightarrow> (string \<rightharpoonup> string) \<Rightarrow> error + (string \<rightharpoonup> string)" where
  "col_map_loop labels [] m = Inr m"
| "col_map_loop labels (tgt # ts) m =
     (if tgt \<in> set labels then col_map_loop labels ts (m(tgt \<mapsto> tgt))
      else ebind (find_approx tgt labels) (\<lambda>r.
             case r of
               Some c \<Rightarrow> col_map_loop labels ts (m(tgt \<mapsto> c))
             | None \<Rightarrow> col_map_loop labels ts m))"

definition build_col_map :: "string list \<Rightarrow> error + (string \<rightharpoonup> string)" where
  "build_col_map labels = col_map_loop labels TARGET_COLS Map.empty"

text \<open>The Schema Mapper on the raw labels of a table: normalize, then map.\<close>

definition schema_mapper :: "label list \<Rightarrow> error + (string \<rightharpoonup> string)" where
  "schema_mapper raw = ebind (normalize_cols raw) build_col_map"

subsection \<open>The mapping as the specification words it\<close>

text \<open>The token before the first underscore of \<open>t\<close>, and the token after its last one; for a
  \<open>t\<close> without underscore both are \<open>t\<close>.\<close>

definition token_before_first_underscore :: "string \<Rightarrow> string" where
  "token_before_first_underscore t = takeWhile (\<lambda>c. c \<noteq> CHR ''_'') t"

definition token_after_last_underscore :: "string \<Rightarrow> string" where
  "token_after_last_underscore t = rev (takeWhile (\<lambda>c. c \<noteq> CHR ''_'') (rev t))"

text \<open>The four predicates of the approximate match, tested in the listed order.\<close>

definition spec_accepts :: "string \<Rightarrow> string \<Rightarrow> bool" where
  "spec_accepts t c =
     (sublist t c \<or> sublist c t \<or> sublist (token_before_first_underscore t) c
      \<or> sublist (token_after_last_underscore t) c)"

text \<open>Exact match first, otherwise the first header in column order that some predicate
  accepts, otherwise unmapped.\<close>

definition spec_mapping :: "string list \<Rightarrow> string \<Rightarrow> string option" where
  "spec_mapping hs t = (if t \<in> set hs then Some t else find (spec_accepts t) hs)"

section \<open>Tables: \<open>pandas.DataFrame\<close>\<close>

text \<open>
  A cell of a table: a string, the float \<open>nan\<close> (what \<open>read_excel\<close> puts in an empty cell),
  \<open>pd.NA\<close>, or any other value (a number, a timestamp, \<open>None\<close>, ...), whose type \<open>'v\<close> the
  program never inspects itself.
\<close>

datatype 'v cell = Str string | NaN | NA | Val 'v

text \<open>
  A frame with the default row index \<open>0..n-1\<close>: the length of the index and the columns in
  order, each a label with its cells. The labels of a raw table are any values; after
  \<open>df.columns = normalize_cols(df.columns)\<close> they are strings.
\<close>

record ('l, 'v) frame =
  frame_len :: nat
  frame_cols :: "('l \<times> 'v cell list) list"

definition frame_labels :: "('l, 'v) frame \<Rightarrow> 'l list" where
  "frame_labels f = map fst (frame_cols f)"

text \<open>\<open>pd.DataFrame()\<close>.\<close>

definition empty_frame :: "(string, 'v) frame" where
  "empty_frame = \<lparr>frame_len = 0, frame_cols = []\<rparr>"

text \<open>\<open>df.columns = new\<close>: the labels are replaced position by position; pandas raises
  \<open>ValueError\<close> when their number is not the number of columns.\<close>

definition set_columns :: "('l, 'v) frame \<Rightarrow> string list \<Rightarrow> error + (string, 'v) frame" where
  "set_columns f new =
     (if length new = length (frame_cols f)
      then Inr \<lparr>frame_len = frame_len f, frame_cols = zip new (map snd (frame_cols f))\<rparr>
      else Inl ValueError)"

text \<open>
  \<open>f[key]\<close> read as one column. A label that occurs once gives its cells; a missing label
  raises \<open>KeyError\<close>. A label that occurs several times gives a frame of all those columns,
  and the one use the program makes of it (\<open>out[tgt] = df[src]\<close>, a frame of several columns
  assigned to one column) raises \<open>ValueError\<close>; the model raises at the read.
\<close>

definition frame_getitem :: "(string, 'v) frame \<Rightarrow> string \<Rightarrow> error + 'v cell list" where
  "frame_getitem f key =
     (case filter (\<lambda>p. fst p = key) (frame_cols f) of
        [] \<Rightarrow> Inl KeyError
      | [p] \<Rightarrow> Inr (snd p)
      | p # q # ps \<Rightarrow> Inl ValueError)"

text \<open>A column aligned on an index of length \<open>n\<close>: its cells at the rows \<open>0..n-1\<close>, a row it
  does not have filled with \<open>nan\<close>.\<close>

definition align :: "nat \<Rightarrow> 'v cell list \<Rightarrow> 'v cell list" where
  "align n s = take n s @ replicate (n - length s) NaN"

text \<open>
  A frame without rows that is assigned a column with rows first takes the index of that
  column, and the columns it already has are filled with \<open>nan\<close> on it.
\<close>

definition ensure_valid_index :: "(string, 'v) frame \<Rightarrow> 'v cell list \<Rightarrow> (string, 'v) frame" where
  "ensure_valid_index f s =
     (if frame_len f = 0 \<and> s \<noteq> []
      then \<lparr>frame_len = length s,
            frame_cols = map (\<lambda>p. (fst p, replicate (length s) NaN)) (frame_cols f)\<rparr>
      else f)"

text \<open>Replace the cells under an existing label, or append a new last column.\<close>

definition put_column :: "(string, 'v) frame \<Rightarrow> string \<Rightarrow> 'v cell list \<Rightarrow> (string, 'v) frame" where
  "put_column f key s =
     (if key \<in> set (frame_labels f)
      then f\<lparr>frame_cols := map (\<lambda>p. if fst p = key then (key, s) else p) (frame_cols f)\<rparr>
      else f\<lparr>frame_cols := frame_cols f @ [(key, s)]\<rparr>)"

text \<open>\<open>f[key] = s\<close> for a column \<open>s\<close>.\<close>

definition setitem_series :: "(string, 'v) frame \<Rightarrow> string \<Rightarrow> 'v cell list \<Rightarrow> (string, 'v) frame" where
  "setitem_series f key s =
     (let g = ensure_valid_index f s in put_column g key (align (frame_len g) s))"

text \<open>\<open>f[key] = v\<close> for a scalar \<open>v\<close>: the scalar in every row the frame has.\<close>

definition setitem_scalar :: "(string, 'v) frame \<Rightarrow> string \<Rightarrow> 'v cell \<Rightarrow> (string, 'v) frame" where
  "setitem_scalar f key v = put_column f key (replicate (frame_len f) v)"

section \<open>Row Coercer: the rest of \<open>map_dataframe\<close>\<close>

text \<open>
  What pandas decides and the repository does not, as parameters: the three conversions the
  program calls on a whole column, each returning a column or raising, the string form of a
  value, and which values count as missing.
\<close>

record 'v pandas =
  to_datetime_date :: "'v cell list \<Rightarrow> error + 'v cell list"
  to_numeric :: "'v cell list \<Rightarrow> error + 'v cell list"
  astype_Int64 :: "'v cell list \<Rightarrow> error + 'v cell list"
  str_of :: "'v \<Rightarrow> string"
  isna :: "'v \<Rightarrow> bool"

text \<open>The absent value of a table: \<open>nan\<close>, \<open>pd.NA\<close>, and the values pandas counts as missing
  (\<open>None\<close>, \<open>NaT\<close>). A string is never absent.\<close>

fun is_absent :: "'v pandas \<Rightarrow> 'v cell \<Rightarrow> bool" where
  "is_absent lib (Str s) = False"
| "is_absent lib NaN = True"
| "is_absent lib NA = True"
| "is_absent lib (Val v) = isna lib v"

text \<open>The loop that builds \<open>out\<close> in target order: the mapped source column, or the scalar
  \<open>pd.NA\<close>.\<close>

fun build_out ::
  "(string, 'v) frame \<Rightarrow> (string \<rightharpoonup> string) \<Rightarrow> string list \<Rightarrow> (string, 'v) frame
     \<Rightarrow> error + (string, 'v) frame" where
  "build_out df col_map [] out = Inr out"
| "build_out df col_map (tgt # ts) out =
     (case col_map tgt of
        Some src \<Rightarrow>
          ebind (frame_getitem df src) (\<lambda>s. build_out df col_map ts (setitem_series out tgt s))
      | None \<Rightarrow> build_out df col_map ts (setitem_scalar out tgt NA))"

text \<open>\<open>out[c] = conv(out[c])\<close> for a conversion that returns a column or raises.\<close>

definition convert_column ::
  "('v cell list \<Rightarrow> error + 'v cell list) \<Rightarrow> string \<Rightarrow> (string, 'v) frame
     \<Rightarrow> error + (string, 'v) frame" where
  "convert_column conv c out =
     ebind (frame_getitem out c) (\<lambda>s. ebind (conv s) (\<lambda>r. Inr (setitem_series out c r)))"

fun convert_columns ::
  "('v cell list \<Rightarrow> error + 'v cell list) \<Rightarrow> string list \<Rightarrow> (string, 'v) frame
     \<Rightarrow> error + (string, 'v) frame" where
  "convert_columns conv [] out = Inr out"
| "convert_columns conv (c # cs) out =
     ebind (convert_column conv c out) (convert_columns conv cs)"

text \<open>\<open>astype(str)\<close> on one cell of a column of objects: the string form of the cell, of a
  missing one too, which is \<open>nan\<close> for the float \<open>nan\<close> (the text that line 82 replaces
  afterwards) and \<open><NA>\<close> for \<open>pd.NA\<close>.\<close>

fun cell_str :: "'v pandas \<Rightarrow> 'v cell \<Rightarrow> string" where
  "cell_str lib (Str s) = s"
| "cell_str lib NaN = ''nan''"
| "cell_str lib NA = ''<NA>''"
| "cell_str lib (Val v) = str_of lib v"

text \<open>\<open>s.astype(str).str.strip().replace({"nan": pd.NA})\<close>: every cell is rendered as a
  string, stripped, and replaced by \<open>pd.NA\<close> when the text left is \<open>nan\<close>.\<close>

definition clean_text :: "'v pandas \<Rightarrow> 'v cell list \<Rightarrow> error + 'v cell list" where
  "clean_text lib s =
     Inr (map (\<lambda>v. let t = py_strip (cell_str lib v) in if t = ''nan'' then NA else Str t) s)"

text \<open>Lines 66 to 82: the date column, the two integer columns (\<open>to_numeric\<close>, then the cast
  to \<open>Int64\<close>), the five decimal columns, the three text columns.\<close>

definition coerce :: "'v pandas \<Rightarrow> (string, 'v) frame \<Rightarrow> error + (string, 'v) frame" where
  "coerce lib out0 =
     ebind (convert_column (to_datetime_date lib) ''date'' out0) (\<lambda>out1.
     ebind (convert_columns (\<lambda>s. ebind (to_numeric lib s) (astype_Int64 lib))
              [''guest_count'', ''quantity''] out1) (\<lambda>out2.
     ebind (convert_columns (to_numeric lib)
              [''cost_price'', ''selling_price'', ''total_sales'', ''total_cost_price'',
               ''profit''] out2) (\<lambda>out3.
     convert_columns (clean_text lib) [''outlet'', ''day'', ''category''] out3)))"

text \<open>\<open>map_dataframe\<close>: rename the columns, map the targets, build \<open>out\<close>, coerce it.\<close>

definition map_dataframe :: "'v pandas \<Rightarrow> (label, 'v) frame \<Rightarrow> error + (string, 'v) frame" where
  "map_dataframe lib df0 =
     ebind (normalize_cols (frame_labels df0)) (\<lambda>names.
     ebind (set_columns df0 names) (\<lambda>df.
     ebind (build_col_map (frame_labels df)) (\<lambda>col_map.
     ebind (build_out df col_map TARGET_COLS empty_frame) (\<lambda>out.
     coerce lib out))))"

section \<open>Bulk Loader: \<open>copy_df_to_postgres\<close>\<close>

text \<open>
  The connection as the loader sees it: the rows other sessions can read (\<open>committed\<close>), the
  rows written inside the open transaction (\<open>pending\<close>), and the calls made on it, in order.
\<close>

datatype call = OpenCursor | CopyExpert string string | CloseCursor | Commit | Close

record 'r conn =
  committed :: "'r list"
  pending :: "'r list"
  calls :: "call list"

text \<open>
  What the target store answers, which the repository does not decide: a \<open>COPY\<close> command with
  its payload either loads rows or fails with an error after writing some rows (for
  PostgreSQL, none) inside the transaction; a commit may fail.
\<close>

datatype 'r copy_result = Copied "'r list" | Failed error "'r list"

record 'r store =
  copy_from :: "string \<Rightarrow> string \<Rightarrow> 'r copy_result"
  commit_fails :: bool

definition TARGET_TABLE :: string where
  "TARGET_TABLE = ''public.'' @ [CHR 0x22] @ ''TRP'' @ [CHR 0x22]"

text \<open>The command text of line 95.\<close>

definition copy_sql :: "string \<Rightarrow> string list \<Rightarrow> string" where
  "copy_sql table cols =
     ''COPY '' @ table @ ''('' @ py_join '', '' cols @ '') FROM STDIN WITH CSV HEADER''"

text \<open>\<open>cur.copy_expert(sql, buf)\<close>: the rows the store wrote are pending; a failure is raised.\<close>

definition copy_expert ::
  "'r store \<Rightarrow> string \<Rightarrow> string \<Rightarrow> 'r conn \<Rightarrow> (error + unit) \<times> 'r conn" where
  "copy_expert st sql buf c =
     (case copy_from st sql buf of
        Copied rows \<Rightarrow>
          (Inr (), c\<lparr>pending := pending c @ rows, calls := calls c @ [CopyExpert sql buf]\<rparr>)
      | Failed e rows \<Rightarrow>
          (Inl e, c\<lparr>pending := pending c @ rows, calls := calls c @ [CopyExpert sql buf]\<rparr>))"

text \<open>\<open>conn.commit()\<close>: the pending rows become readable, unless the commit fails.\<close>

definition commit :: "'r store \<Rightarrow> 'r conn \<Rightarrow> (error + unit) \<times> 'r conn" where
  "commit st c =
     (if commit_fails st then (Inl StoreError, c\<lparr>calls := calls c @ [Commit]\<rparr>)
      else (Inr (), c\<lparr>committed := committed c @ pending c, pending := [],
                      calls := calls c @ [Commit]\<rparr>))"

text \<open>\<open>conn.close()\<close>: an open transaction is rolled back.\<close>

definition close :: "'r conn \<Rightarrow> 'r conn" where
  "close c = c\<lparr>pending := [], calls := calls c @ [Close]\<rparr>"

text \<open>
  \<open>copy_df_to_postgres\<close>. \<open>to_csv\<close> stands for \<open>df.to_csv(buf, index=False, header=True,
  date_format="%Y-%m-%d")\<close>, which returns the text or raises. The \<open>with\<close> block closes the
  cursor on both ways out; an error raised inside it leaves the function before line 97.
\<close>

definition copy_df_to_postgres ::
  "'r store \<Rightarrow> ('df \<Rightarrow> error + string) \<Rightarrow> 'df \<Rightarrow> 'r conn \<Rightarrow> string \<Rightarrow> string list
     \<Rightarrow> (error + unit) \<times> 'r conn" where
  "copy_df_to_postgres st to_csv df c table cols =
     (case to_csv df of
        Inl e \<Rightarrow> (Inl e, c)
      | Inr buf \<Rightarrow>
          (let c1 = c\<lparr>calls := calls c @ [OpenCursor]\<rparr>;
               sql = copy_sql table cols;
               (r, c2) = copy_expert st sql buf c1;
               c3 = c2\<lparr>calls := calls c2 @ [CloseCursor]\<rparr>
           in case r of
                Inl e \<Rightarrow> (Inl e, c3)
              | Inr u \<Rightarrow> commit st c3))"

text \<open>\<open>get_conn\<close> as \<open>main\<close> uses it: a fresh connection over the rows the table holds.\<close>

definition get_conn :: "'r list \<Rightarrow> 'r conn" where
  "get_conn table_rows = \<lparr>committed = table_rows, pending = [], calls = []\<rparr>"

section \<open>Read path: \<open>row_to_dict\<close>\<close>


















section \<open>Properties of the Header Normalizer\<close>

lemma ws_split_no_space:
  "list_all (\<lambda>c. \<not> py_isspace c) w \<Longrightarrow> list_all (list_all (\<lambda>c. \<not> py_isspace c)) (ws_split w s)"
  by (induction w s rule: ws_split.induct) simp_all

lemma py_join_chars:
  "c \<in> set (py_join sep ws) \<Longrightarrow> c \<in> set sep \<or> (\<exists>w \<in> set ws. c \<in> set w)"
  by (induction sep ws rule: py_join.induct) auto

lemma py_isspace_space: "py_isspace CHR '' ''"
  by (simp add: py_isspace_def)

lemma of_char_shift:
  "(of_char c :: nat) \<le> 222 \<Longrightarrow> (of_char (char_of (of_char c + 32 :: nat)) :: nat) = of_char c + 32"
  by simp

lemma py_lower_char_cases:
  "py_lower_char c = c \<or> ((of_char (py_lower_char c) :: nat) = of_char c + 32 \<and>
     (((65::nat) \<le> of_char c \<and> (of_char c :: nat) \<le> 90) \<or> ((192::nat) \<le> of_char c \<and> (of_char c :: nat) \<le> 222)))"
  unfolding py_lower_char_def Let_def
  by (simp add: of_char_shift)

lemma py_lower_char_space: "py_isspace (py_lower_char c) = py_isspace c"
proof (cases "py_lower_char c = c")
  case True
  then show ?thesis by simp
next
  case False
  with py_lower_char_cases [of c]
  have "(of_char (py_lower_char c) :: nat) = of_char c + 32"
    and "((65::nat) \<le> of_char c \<and> (of_char c :: nat) \<le> 90) \<or> ((192::nat) \<le> of_char c \<and> (of_char c :: nat) \<le> 222)"
    by blast+
  then show ?thesis
    unfolding py_isspace_def Let_def by arith
qed

lemma py_lower_char_fix:
  "\<not> (((65::nat) \<le> of_char d \<and> (of_char d :: nat) \<le> 90)
      \<or> ((192::nat) \<le> of_char d \<and> (of_char d :: nat) \<le> 222 \<and> (of_char d :: nat) \<noteq> 215))
   \<Longrightarrow> py_lower_char d = d"
  unfolding py_lower_char_def Let_def by (simp only: if_False)

lemma py_lower_char_idem: "py_lower_char (py_lower_char c) = py_lower_char c"
proof (cases "py_lower_char c = c")
  case True
  then show ?thesis by simp
next
  case False
  with py_lower_char_cases [of c]
  have "(of_char (py_lower_char c) :: nat) = of_char c + 32"
    and "((65::nat) \<le> of_char c \<and> (of_char c :: nat) \<le> 90) \<or> ((192::nat) \<le> of_char c \<and> (of_char c :: nat) \<le> 222)"
    by blast+
  then have "\<not> (((65::nat) \<le> of_char (py_lower_char c) \<and> (of_char (py_lower_char c) :: nat) \<le> 90)
      \<or> ((192::nat) \<le> of_char (py_lower_char c) \<and> (of_char (py_lower_char c) :: nat) \<le> 222 \<and> (of_char (py_lower_char c) :: nat) \<noteq> 215))"
    by arith
  then show ?thesis
    by (rule py_lower_char_fix)
qed

lemma py_lower_char_is_blank: "py_lower_char c = CHR '' '' \<longleftrightarrow> c = CHR '' ''"
proof
  assume h: "py_lower_char c = CHR '' ''"
  show "c = CHR '' ''"
  proof (cases "py_lower_char c = c")
    case True
    with h show ?thesis by simp
  next
    case False
    with py_lower_char_cases [of c]
    have "(of_char (py_lower_char c) :: nat) = of_char c + 32"
      and "((65::nat) \<le> of_char c \<and> (of_char c :: nat) \<le> 90) \<or> ((192::nat) \<le> of_char c \<and> (of_char c :: nat) \<le> 222)"
      by blast+
    moreover have "(of_char (py_lower_char c) :: nat) = 32" using h by simp
    ultimately show ?thesis by arith
  qed
next
  assume "c = CHR '' ''"
  then show "py_lower_char c = CHR '' ''"
    by (simp add: py_lower_char_def)
qed

text \<open>A normalized header holds no whitespace, and lowering it again changes nothing.\<close>

lemma normalize_header_chars:
  assumes "c \<in> set (normalize_header s)"
  shows "c = CHR ''_'' \<or> (\<exists>b. c = py_lower_char b \<and> b \<noteq> CHR '' '' \<and> \<not> py_isspace b)"
proof -
  let ?ws = "py_split_ws (py_strip s)"
  let ?j = "py_join '' '' ?ws"
  have words: "list_all (list_all (\<lambda>c. \<not> py_isspace c)) ?ws"
    unfolding py_split_ws_def by (rule ws_split_no_space) simp
  have "normalize_header s = map (\<lambda>c. if c = CHR '' '' then CHR ''_'' else c) (map py_lower_char ?j)"
    by (simp add: normalize_header_def py_replace_char_def py_lower_def Let_def)
  with assms obtain b where b: "b \<in> set ?j"
    and c: "c = (if py_lower_char b = CHR '' '' then CHR ''_'' else py_lower_char b)"
    by auto
  show ?thesis
  proof (cases "b = CHR '' ''")
    case True
    with c show ?thesis by (simp add: py_lower_char_is_blank)
  next
    case False
    with py_join_chars [OF b] obtain w where "w \<in> set ?ws" and "b \<in> set w" by auto
    with words have "\<not> py_isspace b" by (auto simp add: list_all_iff)
    with False c show ?thesis by (auto simp add: py_lower_char_is_blank)
  qed
qed

lemma normalize_header_no_space:
  assumes "c \<in> set (normalize_header s)"
  shows "\<not> py_isspace c"
  using normalize_header_chars [OF assms]
  by (auto simp add: py_lower_char_space) (simp add: py_isspace_def)

lemma normalize_header_lowered:
  assumes "c \<in> set (normalize_header s)"
  shows "py_lower_char c = c"
  using normalize_header_chars [OF assms]
  by (auto simp add: py_lower_char_idem) (simp add: py_lower_char_def)

lemma dropWhile_none: "list_all (\<lambda>c. \<not> P c) s \<Longrightarrow> dropWhile P s = s"
  by (cases s) simp_all

lemma py_strip_no_space: "list_all (\<lambda>c. \<not> py_isspace c) s \<Longrightarrow> py_strip s = s"
  by (simp add: py_strip_def dropWhile_none list_all_iff)

lemma ws_split_no_space_word:
  "list_all (\<lambda>c. \<not> py_isspace c) s \<Longrightarrow> ws_split w s = (if w @ s = [] then [] else [w @ s])"
  by (induction w s rule: ws_split.induct) simp_all

lemma normalize_header_fixed:
  assumes ns: "list_all (\<lambda>c. \<not> py_isspace c) s" and lo: "list_all (\<lambda>c. py_lower_char c = c) s"
  shows "normalize_header s = s"
proof -
  have 1: "py_strip s = s" using ns by (rule py_strip_no_space)
  have 2: "py_split_ws s = (if s = [] then [] else [s])"
    unfolding py_split_ws_def using ws_split_no_space_word [OF ns, of "[]"] by simp
  have 3: "py_join '' '' (py_split_ws s) = s"
    unfolding 2 by simp
  have 4: "py_lower s = s"
    unfolding py_lower_def using lo by (simp add: map_idI list_all_iff)
  have "\<forall>c \<in> set s. c \<noteq> CHR '' ''"
    using ns py_isspace_space by (auto simp add: list_all_iff)
  then have 5: "py_replace_char CHR '' '' CHR ''_'' s = s"
    unfolding py_replace_char_def by (simp add: map_idI)
  show ?thesis
    by (simp add: normalize_header_def 1 3 4 5)
qed

text \<open>
  Claim C7. Header normalization is idempotent: for every string \<open>s\<close>, normalizing the
  normalized \<open>s\<close> gives the same string as normalizing \<open>s\<close> once.
\<close>

theorem normalize_header_idempotent:
  "normalize_header (normalize_header s) = normalize_header s"
  by (rule normalize_header_fixed)
     (simp_all add: list_all_iff normalize_header_no_space normalize_header_lowered)


lemma normalize_cols_loop_ok:
  "list_all (\<lambda>c. \<exists>s. label_str c = Inr s) cs \<Longrightarrow>
   \<exists>ys. normalize_cols_loop cs out = Inr (out @ ys) \<and> length ys = length cs
        \<and> (\<forall>i < length cs. \<forall>s. label_str (cs ! i) = Inr s \<longrightarrow> ys ! i = normalize_header s)"
proof (induction cs arbitrary: out)
  case Nil
  show ?case by simp
next
  case (Cons c cs)
  from Cons.prems obtain s where s: "label_str c = Inr s" and rest: "list_all (\<lambda>c. \<exists>s. label_str c = Inr s) cs"
    by auto
  from Cons.IH [OF rest, of "out @ [normalize_header s]"] obtain ys where
    ys: "normalize_cols_loop cs (out @ [normalize_header s]) = Inr ((out @ [normalize_header s]) @ ys)"
    and len: "length ys = length cs"
    and nth: "\<forall>i < length cs. \<forall>s. label_str (cs ! i) = Inr s \<longrightarrow> ys ! i = normalize_header s"
    by blast
  have 1: "normalize_cols_loop (c # cs) out = Inr (out @ (normalize_header s # ys))"
    using s ys by (simp add: ebind_def)
  have 2: "length (normalize_header s # ys) = length (c # cs)" using len by simp
  have 3: "\<forall>i < length (c # cs). \<forall>t. label_str ((c # cs) ! i) = Inr t \<longrightarrow> (normalize_header s # ys) ! i = normalize_header t"
  proof (intro allI impI)
    fix i t assume i: "i < length (c # cs)" and t: "label_str ((c # cs) ! i) = Inr t"
    show "(normalize_header s # ys) ! i = normalize_header t"
    proof (cases i)
      case 0
      with s t show ?thesis by simp
    next
      case (Suc j)
      with i t nth show ?thesis by simp
    qed
  qed
  from 1 2 3 show ?case by blast
qed

lemma normalize_cols_loop_error:
  "list_all (\<lambda>c. \<exists>s. label_str c = Inr s) pre \<Longrightarrow> label_str c = Inl e \<Longrightarrow>
   normalize_cols_loop (pre @ c # post) out = Inl e"
proof (induction pre arbitrary: out)
  case Nil
  then show ?case by (simp add: ebind_def)
next
  case (Cons p pre)
  from Cons.prems(1) obtain s where s: "label_str p = Inr s"
    and rest: "list_all (\<lambda>c. \<exists>s. label_str c = Inr s) pre"
    by auto
  show ?case
    using s Cons.IH [OF rest Cons.prems(2)] by (simp add: ebind_def)
qed

lemma normalize_cols_loop_strings:
  "normalize_cols_loop (map LStr ss) out = Inr (out @ map normalize_header ss)"
  by (induction ss arbitrary: out) (simp_all add: ebind_def)

lemma small_int_below_max: "\<bar>i\<bar> < 10 ^ 4 \<Longrightarrow> \<not> int_max_str \<le> \<bar>i\<bar>"
proof -
  assume a: "\<bar>i\<bar> < 10 ^ 4"
  have "(10::int) ^ 4 \<le> 10 ^ 4300" by (rule power_increasing) simp_all
  with a show ?thesis unfolding int_max_str_def by linarith
qed

lemma label_str_2024: "label_str (LInt 2024) = Inr ''2024''"
proof -
  have "\<not> int_max_str \<le> \<bar>2024 :: int\<bar>" by (rule small_int_below_max) simp
  moreover have "py_str_int 2024 = ''2024''" by code_simp
  ultimately show ?thesis by simp
qed

lemma label_str_date: "label_str (LDate (Date 2024 3 5)) = Inr ''2024-03-05''"
proof -
  have "isoformat (Date 2024 3 5) = ''2024-03-05''" by code_simp
  then show ?thesis by simp
qed

lemma normalize_examples:
  "normalize_header ''  Outlet   Name '' = ''outlet_name''"
  "normalize_header ''2024'' = ''2024''"
  "normalize_header ''None'' = ''none''"
  "normalize_header ''True'' = ''true''"
  "normalize_header ''2024-03-05'' = ''2024-03-05''"
  by code_simp+

text \<open>
  Claim C10, as amended. On header strings, the declared input, \<open>normalize_cols\<close> raises no
  error and returns the normalized strings, one per header. On other header values it first
  takes \<open>str\<close>: when \<open>str\<close> returns for every value, the result has the length of the input and
  holds at each position the normalization of that value's string form (\<open>2024\<close> for the
  integer 2024, \<open>none\<close> for \<open>None\<close>, \<open>true\<close> for \<open>True\<close>, \<open>2024-03-05\<close> for that date); when \<open>str\<close>
  raises for a value and returned for all the values before it, \<open>normalize_cols\<close> raises
  that error and returns no list.
\<close>

theorem normalize_cols_outcome:
  "normalize_cols (map LStr ss) = Inr (map normalize_header ss)
   \<and> (list_all (\<lambda>c. \<exists>s. label_str c = Inr s) cs \<longrightarrow>
        (\<exists>ys. normalize_cols cs = Inr ys \<and> length ys = length cs
           \<and> (\<forall>i < length cs. \<forall>s. label_str (cs ! i) = Inr s \<longrightarrow> ys ! i = normalize_header s)))
   \<and> (list_all (\<lambda>c. \<exists>s. label_str c = Inr s) pre \<and> label_str c = Inl e \<longrightarrow>
        normalize_cols (pre @ c # post) = Inl e)
   \<and> normalize_cols [LStr ''  Outlet   Name '', LInt 2024, LNone, LBool True, LDate (Date 2024 3 5)]
       = Inr [''outlet_name'', ''2024'', ''none'', ''true'', ''2024-03-05'']"
proof (intro conjI impI)
  show "normalize_cols (map LStr ss) = Inr (map normalize_header ss)"
    by (simp add: normalize_cols_def normalize_cols_loop_strings)
next
  assume "list_all (\<lambda>c. \<exists>s. label_str c = Inr s) cs"
  from normalize_cols_loop_ok [OF this, of "[]"]
  show "\<exists>ys. normalize_cols cs = Inr ys \<and> length ys = length cs
           \<and> (\<forall>i < length cs. \<forall>s. label_str (cs ! i) = Inr s \<longrightarrow> ys ! i = normalize_header s)"
    by (simp add: normalize_cols_def)
next
  assume "list_all (\<lambda>c. \<exists>s. label_str c = Inr s) pre \<and> label_str c = Inl e"
  then show "normalize_cols (pre @ c # post) = Inl e"
    by (simp add: normalize_cols_def normalize_cols_loop_error)
next
  show "normalize_cols [LStr ''  Outlet   Name '', LInt 2024, LNone, LBool True, LDate (Date 2024 3 5)]
       = Inr [''outlet_name'', ''2024'', ''none'', ''true'', ''2024-03-05'']"
    by (simp add: normalize_cols_def ebind_def label_str_2024 label_str_date normalize_examples
        del: label_str.simps(2,5))
qed

theorem normalize_cols_outcome_witness:
  "list_all (\<lambda>c. \<exists>s. label_str c = Inr s) [LStr ''Outlet Name'', LNone]
   \<and> (\<exists>ys. normalize_cols [LStr ''Outlet Name'', LNone] = Inr ys \<and> length ys = 2)
   \<and> list_all (\<lambda>c. \<exists>s. label_str c = Inr s) [LStr ''a'']
   \<and> label_str (LObj (Inl TypeError)) = Inl TypeError
   \<and> normalize_cols ([LStr ''a''] @ LObj (Inl TypeError) # [LNone]) = Inl TypeError"
proof -
  have h1: "list_all (\<lambda>c. \<exists>s. label_str c = Inr s) [LStr ''Outlet Name'', LNone]" by simp
  have h2: "list_all (\<lambda>c. \<exists>s. label_str c = Inr s) [LStr ''a'']" by simp
  have h3: "label_str (LObj (Inl TypeError)) = Inl TypeError" by simp
  from normalize_cols_outcome [of "[]" "[LStr ''Outlet Name'', LNone]" "[LStr ''a'']" "LObj (Inl TypeError)" TypeError "[LNone]"]
  have a: "\<exists>ys. normalize_cols [LStr ''Outlet Name'', LNone] = Inr ys \<and> length ys = length [LStr ''Outlet Name'', LNone]
           \<and> (\<forall>i < length [LStr ''Outlet Name'', LNone]. \<forall>s. label_str ([LStr ''Outlet Name'', LNone] ! i) = Inr s \<longrightarrow> ys ! i = normalize_header s)"
    and b: "normalize_cols ([LStr ''a''] @ LObj (Inl TypeError) # [LNone]) = Inl TypeError"
    using h1 h2 h3 by blast+
  from a have "\<exists>ys. normalize_cols [LStr ''Outlet Name'', LNone] = Inr ys \<and> length ys = 2"
    by auto
  with h1 h2 h3 b show ?thesis by blast
qed

text \<open>The claim as it was stated fails on an integer label of 4301 digits: \<open>str\<close> raises
  \<open>ValueError\<close>, and so does \<open>normalize_cols\<close>.\<close>

theorem normalize_cols_raises_counterexample:
  "normalize_cols [LInt (10 ^ 4300)] = Inl ValueError"
proof -
  have "normalize_cols [LInt int_max_str] = Inl ValueError"
    by (simp add: normalize_cols_def ebind_def)
  then show ?thesis unfolding int_max_str_def .
qed

section \<open>Properties of the Schema Mapper\<close>

lemma py_in_sublist: "py_in a b = sublist a b"
  by (induction b) (simp_all add: sublist_Cons_right)

lemma py_split_nonempty: "py_split sep s \<noteq> []"
  by (induction s) (simp_all split: list.splits)

lemma py_split_hd: "hd (py_split sep s) = takeWhile (\<lambda>c. c \<noteq> sep) s"
  by (induction s) (auto simp add: py_split_nonempty split: list.splits)

lemma py_split_no_sep: "sep \<notin> set s \<Longrightarrow> py_split sep s = [s]"
  by (induction s) auto

lemma py_split_sep: "sep \<in> set s \<Longrightarrow> tl (py_split sep s) \<noteq> []"
  by (induction s) (auto simp add: py_split_nonempty split: list.splits)

lemma takeWhile_snoc_stop: "\<not> P c \<Longrightarrow> takeWhile P (xs @ [c]) = takeWhile P xs"
  by (induction xs) simp_all

lemma py_split_last: "last (py_split sep s) = rev (takeWhile (\<lambda>c. c \<noteq> sep) (rev s))"
proof (induction s)
  case Nil
  show ?case by simp
next
  case (Cons c cs)
  show ?case
  proof (cases "c = sep")
    case True
    then show ?thesis
      using Cons by (simp add: py_split_nonempty takeWhile_snoc_stop)
  next
    case False
    show ?thesis
    proof (cases "sep \<in> set cs")
      case True
      then obtain x where x: "x \<in> set (rev cs)" "\<not> x \<noteq> sep" by auto
      have tw: "takeWhile (\<lambda>c. c \<noteq> sep) (rev cs @ [c]) = takeWhile (\<lambda>c. c \<noteq> sep) (rev cs)"
        using x by (rule takeWhile_append1)
      from py_split_sep [OF True] obtain w v vs where sp: "py_split sep cs = w # v # vs"
        by (cases "py_split sep cs"; cases "tl (py_split sep cs)") auto
      show ?thesis
        using Cons False sp tw by simp
    next
      case nosep: False
      have "takeWhile (\<lambda>x. x \<noteq> sep) (rev (c # cs)) = rev (c # cs)"
        by (rule takeWhile_eq_all_conv [THEN iffD2]) (use nosep False in auto)
      then have r: "rev (takeWhile (\<lambda>x. x \<noteq> sep) (rev (c # cs))) = c # cs"
        by (simp only: rev_rev_ident)
      show ?thesis
        unfolding r using False py_split_no_sep [OF nosep] by simp
    qed
  qed
qed

lemma py_getitem_first: "xs \<noteq> [] \<Longrightarrow> py_getitem xs 0 = Inr (hd xs)"
  by (simp add: py_getitem_def hd_conv_nth)

lemma py_getitem_last: "xs \<noteq> [] \<Longrightarrow> py_getitem xs (- 1) = Inr (last xs)"
proof -
  assume ne: "xs \<noteq> []"
  then have len: "length xs \<ge> 1" by (cases xs) simp_all
  then have n: "nat (int (length xs) + - 1) = length xs - 1" by arith
  have c: "\<not> (0 \<le> (- 1 :: int) \<and> (- 1 :: int) < int (length xs))" by simp
  have d: "(- 1 :: int) < 0 \<and> - (- 1 :: int) \<le> int (length xs)" using len by simp
  show ?thesis
    unfolding py_getitem_def using ne
    by (simp only: c d n if_True if_False) (simp add: last_conv_nth)
qed

lemma approx_match_spec: "approx_match tgt c = Inr (spec_accepts tgt c)"
  by (simp add: approx_match_def spec_accepts_def ebind_def py_in_sublist
      py_getitem_first py_getitem_last py_split_nonempty py_split_hd py_split_last
      token_before_first_underscore_def token_after_last_underscore_def)

lemma find_approx_spec: "find_approx tgt cs = Inr (find (spec_accepts tgt) cs)"
  by (induction cs) (simp_all add: approx_match_spec ebind_def)

lemma col_map_loop_spec:
  "col_map_loop hs ts m =
     Inr (\<lambda>t. if t \<in> set ts \<and> spec_mapping hs t \<noteq> None then spec_mapping hs t else m t)"
proof (induction ts arbitrary: m)
  case Nil
  show ?case by simp
next
  case (Cons t ts)
  show ?case
  proof (cases "t \<in> set hs")
    case True
    then show ?thesis
      by (simp add: Cons) (rule ext, auto simp add: spec_mapping_def)
  next
    case False
    show ?thesis
    proof (cases "find (spec_accepts t) hs")
      case None
      with False show ?thesis
        by (simp add: Cons find_approx_spec ebind_def spec_mapping_def) (rule ext, auto)
    next
      case (Some c)
      with False show ?thesis
        by (simp add: Cons find_approx_spec ebind_def) (rule ext, auto simp add: spec_mapping_def)
    qed
  qed
qed

lemma col_map_loop_empty: "col_map_loop hs ts Map.empty = Inr (restrict_map (spec_mapping hs) (set ts))"
proof -
  have "(\<lambda>t. if t \<in> set ts \<and> spec_mapping hs t \<noteq> None then spec_mapping hs t else None)
        = restrict_map (spec_mapping hs) (set ts)"
    by (rule ext) (simp add: restrict_map_def)
  then show ?thesis by (simp add: col_map_loop_spec)
qed

text \<open>
  Claim C3. For every list of normalized headers and every target column \<open>t\<close>, the Schema
  Mapper's result is the reference mapping: \<open>t\<close> itself when \<open>t\<close> is one of the headers,
  otherwise the first header in column order that one of the four predicates accepts,
  otherwise no entry; and the entries set after a prefix of the targets are all still there,
  unchanged, after the whole list.
\<close>

theorem schema_mapper_refines_reference:
  "build_col_map hs = Inr (restrict_map (spec_mapping hs) (set TARGET_COLS))
   \<and> col_map_loop hs ts Map.empty = Inr (restrict_map (spec_mapping hs) (set ts))
   \<and> (\<exists>m1 m2. col_map_loop hs ts Map.empty = Inr m1
          \<and> col_map_loop hs (ts @ us) Map.empty = Inr m2 \<and> m1 \<subseteq>\<^sub>m m2)"
proof -
  have "restrict_map (spec_mapping hs) (set ts) \<subseteq>\<^sub>m restrict_map (spec_mapping hs) (set (ts @ us))"
    by (auto simp add: map_le_def restrict_map_def dom_def)
  then show ?thesis
    by (simp add: build_col_map_def col_map_loop_empty)
qed

lemma mapper_total_example:
  "normalize_cols [LStr ''Total''] = Inr [''total'']
   \<and> schema_mapper [LStr ''Total''] = Inr (restrict_map (spec_mapping [''total'']) (set TARGET_COLS))"
proof -
  have n: "normalize_header ''Total'' = ''total''" by code_simp
  have 1: "normalize_cols [LStr ''Total''] = Inr [''total'']"
    by (simp add: normalize_cols_def ebind_def n)
  have 2: "build_col_map [''total''] = Inr (restrict_map (spec_mapping [''total'']) (set TARGET_COLS))"
    by (simp only: build_col_map_def col_map_loop_empty)
  show ?thesis
    unfolding schema_mapper_def 1 using 2 by (simp add: ebind_def)
qed

text \<open>
  Claim C9. For some header list, two distinct target columns are mapped to the same source
  header: with the single header \<open>Total\<close>, normalized to \<open>total\<close>, both \<open>total_sales\<close> and
  \<open>total_cost_price\<close> map to that header, and the mapper returns without an error.
\<close>

theorem two_targets_share_header:
  "\<exists>hs ns m t1 t2 c. t1 \<noteq> t2 \<and> t1 \<in> set TARGET_COLS \<and> t2 \<in> set TARGET_COLS
     \<and> normalize_cols hs = Inr ns \<and> c \<in> set ns
     \<and> schema_mapper hs = Inr m \<and> m t1 = Some c \<and> m t2 = Some c"
proof -
  let ?m = "restrict_map (spec_mapping [''total'']) (set TARGET_COLS)"
  have a: "spec_mapping [''total''] ''total_sales'' = Some ''total''" by code_simp
  have b: "spec_mapping [''total''] ''total_cost_price'' = Some ''total''" by code_simp
  have ta: "''total_sales'' \<in> set TARGET_COLS" by (simp add: TARGET_COLS_def)
  have tb: "''total_cost_price'' \<in> set TARGET_COLS" by (simp add: TARGET_COLS_def)
  have ne: "''total_sales'' \<noteq> ''total_cost_price''" by simp
  have ma: "?m ''total_sales'' = Some ''total''"
    unfolding restrict_map_def using ta a by (simp only: if_True)
  have mb: "?m ''total_cost_price'' = Some ''total''"
    unfolding restrict_map_def using tb b by (simp only: if_True)
  have c: "''total'' \<in> set [''total'']" by simp
  have "''total_sales'' \<noteq> ''total_cost_price'' \<and> ''total_sales'' \<in> set TARGET_COLS
     \<and> ''total_cost_price'' \<in> set TARGET_COLS
     \<and> normalize_cols [LStr ''Total''] = Inr [''total''] \<and> ''total'' \<in> set [''total'']
     \<and> schema_mapper [LStr ''Total''] = Inr ?m \<and> ?m ''total_sales'' = Some ''total''
     \<and> ?m ''total_cost_price'' = Some ''total''"
    using ne ta tb ma mb c mapper_total_example by (intro conjI) simp_all
  then show ?thesis
    by (intro exI)
qed

section \<open>Properties of the Bulk Loader\<close>

lemma copy_fails_no_commit:
  assumes "to_csv df = Inr buf" and "copy_from st (copy_sql table cols) buf = Failed e rows"
  shows "copy_df_to_postgres st to_csv df c table cols =
           (Inl e, c\<lparr>pending := pending c @ rows,
                      calls := calls c @ [OpenCursor, CopyExpert (copy_sql table cols) buf, CloseCursor]\<rparr>)"
  using assms by (simp add: copy_df_to_postgres_def copy_expert_def Let_def)

lemma copy_succeeds_commit:
  assumes "to_csv df = Inr buf" and "copy_from st (copy_sql table cols) buf = Copied rows"
  shows "copy_df_to_postgres st to_csv df c table cols =
           (if commit_fails st
            then (Inl StoreError, c\<lparr>pending := pending c @ rows,
                    calls := calls c @ [OpenCursor, CopyExpert (copy_sql table cols) buf, CloseCursor, Commit]\<rparr>)
            else (Inr (), c\<lparr>committed := committed c @ pending c @ rows, pending := [],
                    calls := calls c @ [OpenCursor, CopyExpert (copy_sql table cols) buf, CloseCursor, Commit]\<rparr>))"
  using assms by (simp add: copy_df_to_postgres_def copy_expert_def commit_def Let_def)

lemma csv_fails_nothing:
  assumes "to_csv df = Inl e"
  shows "copy_df_to_postgres st to_csv df c table cols = (Inl e, c)"
  using assms by (simp add: copy_df_to_postgres_def)

text \<open>
  Claim C6. The bulk load is all-or-nothing. Whatever the store answers, the loader calls
  \<open>commit\<close> exactly when the whole \<open>COPY\<close> command has succeeded, and then as the call right
  after the command and the closing of its cursor; if the command fails (or the payload cannot
  be written, or the commit itself fails) the committed rows are the ones from before the
  call, so no row of the batch can be read, and after \<open>conn.close()\<close> nothing of it is pending
  either. A run that returns has committed every row of the batch.
\<close>

theorem bulk_load_all_or_nothing:
  assumes run: "copy_df_to_postgres st to_csv df c table cols = (r, c')"
  shows "(Commit \<in> set (drop (length (calls c)) (calls c')) \<longleftrightarrow>
            (\<exists>buf rows. to_csv df = Inr buf \<and> copy_from st (copy_sql table cols) buf = Copied rows))
       \<and> (Commit \<in> set (drop (length (calls c)) (calls c')) \<longrightarrow>
            (\<exists>buf. to_csv df = Inr buf
               \<and> calls c' = calls c @ [OpenCursor, CopyExpert (copy_sql table cols) buf, CloseCursor, Commit]))
       \<and> (r = Inr () \<longleftrightarrow>
            (\<exists>buf rows. to_csv df = Inr buf \<and> copy_from st (copy_sql table cols) buf = Copied rows
               \<and> \<not> commit_fails st))
       \<and> (r \<noteq> Inr () \<longrightarrow> committed c' = committed c \<and> committed (close c') = committed c
             \<and> pending (close c') = [])
       \<and> (r = Inr () \<longrightarrow>
            (\<exists>buf rows. to_csv df = Inr buf \<and> copy_from st (copy_sql table cols) buf = Copied rows
               \<and> committed c' = committed c @ pending c @ rows \<and> pending c' = []))"
proof (cases "to_csv df")
  case (Inl e)
  from csv_fails_nothing [of to_csv df e st c table cols, OF Inl] run have "r = Inl e" and "c' = c" by simp_all
  with Inl show ?thesis by (simp add: close_def)
next
  case (Inr buf)
  show ?thesis
  proof (cases "copy_from st (copy_sql table cols) buf")
    case (Failed e rows)
    from copy_fails_no_commit [of to_csv df buf st table cols e rows c, OF Inr Failed] run
    have r: "r = Inl e"
      and c': "c' = c\<lparr>pending := pending c @ rows,
                      calls := calls c @ [OpenCursor, CopyExpert (copy_sql table cols) buf, CloseCursor]\<rparr>"
      by simp_all
    show ?thesis using Inr Failed by (simp add: r c' close_def)
  next
    case (Copied rows)
    note eq = copy_succeeds_commit [of to_csv df buf st table cols rows c, OF Inr Copied]
    show ?thesis
    proof (cases "commit_fails st")
      case True
      with eq run have r: "r = Inl StoreError"
        and c': "c' = c\<lparr>pending := pending c @ rows,
                    calls := calls c @ [OpenCursor, CopyExpert (copy_sql table cols) buf, CloseCursor, Commit]\<rparr>"
        by simp_all
      show ?thesis using Inr Copied True by (simp add: r c' close_def)
    next
      case False
      with eq run have r: "r = Inr ()"
        and c': "c' = c\<lparr>committed := committed c @ pending c @ rows, pending := [],
                    calls := calls c @ [OpenCursor, CopyExpert (copy_sql table cols) buf, CloseCursor, Commit]\<rparr>"
        by simp_all
      show ?thesis using Inr Copied False by (simp add: r c' close_def)
    qed
  qed
qed

text \<open>Two runs on a table holding row 1 with a batch of rows 2 and 3: a store that rejects the
  command after writing row 2, and a store that accepts it.\<close>

theorem bulk_load_all_or_nothing_witness:
  "(\<exists>c'. copy_df_to_postgres \<lparr>copy_from = (\<lambda>sql buf. Failed ValueError [2::nat]), commit_fails = False\<rparr>
            Inr ''a'' (get_conn [1]) TARGET_TABLE TARGET_COLS = (Inl ValueError, c')
        \<and> Inl ValueError \<noteq> (Inr () :: error + unit)
        \<and> Commit \<notin> set (drop (length (calls (get_conn [1::nat]))) (calls c'))
        \<and> committed c' = [1] \<and> committed (close c') = [1] \<and> pending (close c') = [])
   \<and> (\<exists>c'. copy_df_to_postgres \<lparr>copy_from = (\<lambda>sql buf. Copied [2::nat, 3]), commit_fails = False\<rparr>
            Inr ''a'' (get_conn [1]) TARGET_TABLE TARGET_COLS = (Inr (), c')
        \<and> Commit \<in> set (drop (length (calls (get_conn [1::nat]))) (calls c'))
        \<and> calls c' = [OpenCursor, CopyExpert (copy_sql TARGET_TABLE TARGET_COLS) ''a'', CloseCursor, Commit]
        \<and> committed c' = [1, 2, 3] \<and> pending c' = [])"
proof -
  define bad :: "nat store" where
    "bad = \<lparr>copy_from = (\<lambda>sql buf. Failed ValueError [2::nat]), commit_fails = False\<rparr>"
  define good :: "nat store" where
    "good = \<lparr>copy_from = (\<lambda>sql buf. Copied [2::nat, 3]), commit_fails = False\<rparr>"
  define c1 :: "nat conn" where
    "c1 = snd (copy_df_to_postgres bad Inr ''a'' (get_conn [1]) TARGET_TABLE TARGET_COLS)"
  define c2 :: "nat conn" where
    "c2 = snd (copy_df_to_postgres good Inr ''a'' (get_conn [1]) TARGET_TABLE TARGET_COLS)"
  have r1: "copy_df_to_postgres bad Inr ''a'' (get_conn [1]) TARGET_TABLE TARGET_COLS = (Inl ValueError, c1)"
    unfolding c1_def bad_def
    by (simp add: copy_df_to_postgres_def copy_expert_def Let_def)
  have r2: "copy_df_to_postgres good Inr ''a'' (get_conn [1]) TARGET_TABLE TARGET_COLS = (Inr (), c2)"
    unfolding c2_def good_def
    by (simp add: copy_df_to_postgres_def copy_expert_def commit_def Let_def)
  have f: "copy_from bad (copy_sql TARGET_TABLE TARGET_COLS) ''a'' = Failed ValueError [2]"
    and g: "copy_from good (copy_sql TARGET_TABLE TARGET_COLS) ''a'' = Copied [2, 3]"
    and ng: "\<not> commit_fails good"
    by (simp_all add: bad_def good_def)
  from bulk_load_all_or_nothing [OF r1] f
  have a: "Commit \<notin> set (drop (length (calls (get_conn [1::nat]))) (calls c1))"
    and b: "committed c1 = [1] \<and> committed (close c1) = [1] \<and> pending (close c1) = []"
    by (simp_all add: get_conn_def)
  from bulk_load_all_or_nothing [OF r2] g
  have c: "Commit \<in> set (drop (length (calls (get_conn [1::nat]))) (calls c2))"
    and d: "calls c2 = [OpenCursor, CopyExpert (copy_sql TARGET_TABLE TARGET_COLS) ''a'', CloseCursor, Commit]"
    and e: "committed c2 = [1, 2, 3] \<and> pending c2 = []"
    by (simp_all add: get_conn_def)
  from r1 a b have A: "\<exists>c'. copy_df_to_postgres bad Inr ''a'' (get_conn [1]) TARGET_TABLE TARGET_COLS = (Inl ValueError, c')
        \<and> Inl ValueError \<noteq> (Inr () :: error + unit)
        \<and> Commit \<notin> set (drop (length (calls (get_conn [1::nat]))) (calls c'))
        \<and> committed c' = [1] \<and> committed (close c') = [1] \<and> pending (close c') = []"
    by (intro exI [of _ c1]) simp
  from r2 c d e have B: "\<exists>c'. copy_df_to_postgres good Inr ''a'' (get_conn [1]) TARGET_TABLE TARGET_COLS = (Inr (), c')
        \<and> Commit \<in> set (drop (length (calls (get_conn [1::nat]))) (calls c'))
        \<and> calls c' = [OpenCursor, CopyExpert (copy_sql TARGET_TABLE TARGET_COLS) ''a'', CloseCursor, Commit]
        \<and> committed c' = [1, 2, 3] \<and> pending c' = []"
    by (intro exI [of _ c2]) simp
  from A B show ?thesis unfolding bad_def good_def by (intro conjI)
qed

section \<open>Properties of the Row Coercer\<close>

lemma ebind_Inr: "ebind (Inr x) f = f x"
  by (simp add: ebind_def)

lemma ebind_Inl: "ebind (Inl e) f = Inl e"
  by (simp add: ebind_def)

lemma ebind_returns:
  assumes "ebind r f = Inr y"
  obtains x where "r = Inr x" and "f x = Inr y"
  using assms by (cases r) (simp_all add: ebind_def)

subsection \<open>Assigning a column\<close>

lemma filter_replace_other:
  "k \<noteq> c \<Longrightarrow> filter (\<lambda>p. fst p = k) (map (\<lambda>p. if fst p = c then (c, s) else p) xs)
     = filter (\<lambda>p. fst p = k) xs"
  by (induction xs) auto

lemma filter_replace_same:
  "filter (\<lambda>p. fst p = c) (map (\<lambda>p. if fst p = c then (c, s) else p) xs)
     = map (\<lambda>p. (c, s)) (filter (\<lambda>p. fst p = c) xs)"
  by (induction xs) auto

lemma frame_len_put_column: "frame_len (put_column f c s) = frame_len f"
  by (simp add: put_column_def)

lemma frame_getitem_put_other:
  "k \<noteq> c \<Longrightarrow> frame_getitem (put_column f c s) k = frame_getitem f k"
  by (simp add: frame_getitem_def put_column_def filter_replace_other)

lemma frame_getitem_labels:
  assumes "frame_getitem f c = Inr s"
  shows "c \<in> set (frame_labels f)"
proof (rule ccontr)
  assume "c \<notin> set (frame_labels f)"
  then have "filter (\<lambda>p. fst p = c) (frame_cols f) = []"
    by (auto simp add: frame_labels_def filter_empty_conv)
  with assms show False by (simp add: frame_getitem_def)
qed

lemma frame_getitem_put_same:
  assumes "frame_getitem f c = Inr s"
  shows "frame_getitem (put_column f c r) c = Inr r"
proof -
  from assms obtain p where p: "filter (\<lambda>p. fst p = c) (frame_cols f) = [p]"
    by (auto simp add: frame_getitem_def split: list.splits)
  from assms have "c \<in> set (frame_labels f)" by (rule frame_getitem_labels)
  then show ?thesis
    by (simp add: frame_getitem_def put_column_def filter_replace_same p)
qed

lemma frame_labels_put_same:
  "c \<in> set (frame_labels f) \<Longrightarrow> frame_labels (put_column f c s) = frame_labels f"
  by (simp add: put_column_def frame_labels_def o_def)

lemma setitem_series_rows:
  "0 < frame_len f \<Longrightarrow> setitem_series f c s = put_column f c (align (frame_len f) s)"
  by (simp add: setitem_series_def ensure_valid_index_def)

subsection \<open>A conversion on a frame that has rows\<close>

lemma convert_column_rows:
  assumes "0 < frame_len f" and "convert_column conv c f = Inr g"
  shows "frame_len g = frame_len f" and "frame_labels g = frame_labels f"
    and "k \<noteq> c \<Longrightarrow> frame_getitem g k = frame_getitem f k"
    and "\<exists>s r. frame_getitem f c = Inr s \<and> conv s = Inr r
           \<and> frame_getitem g c = Inr (align (frame_len f) r)"
proof -
  from assms(2) obtain s where s: "frame_getitem f c = Inr s"
    and 1: "ebind (conv s) (\<lambda>r. Inr (setitem_series f c r)) = Inr g"
    unfolding convert_column_def by (rule ebind_returns)
  from 1 obtain r where r: "conv s = Inr r" and "Inr (setitem_series f c r) = (Inr g :: error + (string, 'a) frame)"
    by (rule ebind_returns)
  then have g: "g = put_column f c (align (frame_len f) r)"
    using assms(1) by (simp add: setitem_series_rows)
  show "frame_len g = frame_len f" by (simp add: g frame_len_put_column)
  show "frame_labels g = frame_labels f"
    using s by (simp add: g frame_labels_put_same frame_getitem_labels)
  show "k \<noteq> c \<Longrightarrow> frame_getitem g k = frame_getitem f k"
    by (simp add: g frame_getitem_put_other)
  show "\<exists>s r. frame_getitem f c = Inr s \<and> conv s = Inr r
           \<and> frame_getitem g c = Inr (align (frame_len f) r)"
    using s r by (simp add: g frame_getitem_put_same)
qed

lemma convert_columns_rows:
  assumes "0 < frame_len f" and "convert_columns conv cs f = Inr g"
  shows "frame_len g = frame_len f \<and> frame_labels g = frame_labels f
         \<and> (\<forall>k. k \<notin> set cs \<longrightarrow> frame_getitem g k = frame_getitem f k)"
  using assms
proof (induction cs arbitrary: f)
  case Nil
  then show ?case by simp
next
  case (Cons c cs)
  from Cons.prems(2) obtain h where h: "convert_column conv c f = Inr h"
    and rest: "convert_columns conv cs h = Inr g"
    by (auto elim: ebind_returns)
  note step = convert_column_rows [OF Cons.prems(1) h]
  from step(1) Cons.prems(1) have "0 < frame_len h" by simp
  from Cons.IH [OF this rest] step show ?case by simp
qed

subsection \<open>A conversion that raises\<close>

lemma convert_columns_raises:
  assumes "0 < frame_len f" and "c \<in> set cs" and "frame_getitem f c = Inr s"
    and "conv s = Inl e"
  shows "\<exists>e'. convert_columns conv cs f = Inl e'"
  using assms
proof (induction cs arbitrary: f)
  case Nil
  then show ?case by simp
next
  case (Cons d cs)
  show ?case
  proof (cases "convert_column conv d f")
    case (Inl e')
    then show ?thesis by (simp add: ebind_Inl)
  next
    case (Inr h)
    note step = convert_column_rows [OF Cons.prems(1) Inr]
    have "d \<noteq> c"
    proof
      assume "d = c"
      with step(4) Cons.prems(3,4) show False by auto
    qed
    with Cons.prems(2) have "c \<in> set cs" by simp
    moreover from step(3) [of c] \<open>d \<noteq> c\<close> Cons.prems(3) have "frame_getitem h c = Inr s" by simp
    moreover from step(1) Cons.prems(1) have "0 < frame_len h" by simp
    ultimately have "\<exists>e'. convert_columns conv cs h = Inl e'"
      using Cons.IH Cons.prems(4) by blast
    then show ?thesis by (simp add: Inr ebind_Inr)
  qed
qed

subsection \<open>Building \<open>out\<close>\<close>

lemma build_out_cong:
  "(\<And>t. t \<in> set ts \<Longrightarrow> m t = m' t) \<Longrightarrow> build_out df m ts out = build_out df m' ts out"
  by (induction ts arbitrary: out) (simp_all split: option.splits)

lemma build_out_mapper:
  "build_out df (restrict_map (spec_mapping hs) (set TARGET_COLS)) TARGET_COLS out
     = build_out df (spec_mapping hs) TARGET_COLS out"
  by (rule build_out_cong) simp

lemma map_dataframe_steps:
  assumes "normalize_cols (frame_labels df0) = Inr hs"
    and "set_columns df0 hs = Inr df"
    and "frame_labels df = hs"
    and "build_out df (spec_mapping hs) TARGET_COLS empty_frame = Inr out"
  shows "map_dataframe lib df0 = coerce lib out"
  using assms
  by (simp add: map_dataframe_def ebind_Inr build_col_map_def col_map_loop_empty build_out_mapper)

subsection \<open>The sheet with the one header \<open>Quantity\<close>\<close>

lemma quantity_header: "normalize_header ''Quantity'' = ''quantity''"
  by code_simp

lemma quantity_mapping:
  "spec_mapping [''quantity''] ''outlet'' = None"
  "spec_mapping [''quantity''] ''date'' = None"
  "spec_mapping [''quantity''] ''day'' = None"
  "spec_mapping [''quantity''] ''guest_count'' = None"
  "spec_mapping [''quantity''] ''category'' = None"
  "spec_mapping [''quantity''] ''quantity'' = Some ''quantity''"
  "spec_mapping [''quantity''] ''cost_price'' = None"
  "spec_mapping [''quantity''] ''selling_price'' = None"
  "spec_mapping [''quantity''] ''total_sales'' = None"
  "spec_mapping [''quantity''] ''total_cost_price'' = None"
  "spec_mapping [''quantity''] ''profit'' = None"
  by code_simp+

lemma setitem_scalar_new:
  "key \<notin> fst ` set cs \<Longrightarrow>
   setitem_scalar \<lparr>frame_len = n, frame_cols = cs\<rparr> key v
     = \<lparr>frame_len = n, frame_cols = cs @ [(key, replicate n v)]\<rparr>"
  by (simp add: setitem_scalar_def put_column_def frame_labels_def)

lemma setitem_series_first:
  "key \<notin> fst ` set cs \<Longrightarrow> s \<noteq> [] \<Longrightarrow>
   setitem_series \<lparr>frame_len = 0, frame_cols = cs\<rparr> key s
     = \<lparr>frame_len = length s,
         frame_cols = map (\<lambda>p. (fst p, replicate (length s) NaN)) cs @ [(key, s)]\<rparr>"
  by (simp add: setitem_series_def ensure_valid_index_def put_column_def frame_labels_def
      align_def o_def Let_def image_image)

lemma setitem_series_new:
  "key \<notin> fst ` set cs \<Longrightarrow> 0 < n \<Longrightarrow>
   setitem_series \<lparr>frame_len = n, frame_cols = cs\<rparr> key s
     = \<lparr>frame_len = n, frame_cols = cs @ [(key, align n s)]\<rparr>"
  by (simp add: setitem_series_def ensure_valid_index_def put_column_def frame_labels_def Let_def)

lemma build_out_None:
  "m tgt = None \<Longrightarrow>
   build_out df m (tgt # ts) out = build_out df m ts (setitem_scalar out tgt NA)"
  by simp

lemma build_out_Some:
  "m tgt = Some src \<Longrightarrow> frame_getitem df src = Inr s \<Longrightarrow>
   build_out df m (tgt # ts) out = build_out df m ts (setitem_series out tgt s)"
  by (simp add: ebind_Inr)

lemma quantity_out:
  "build_out \<lparr>frame_len = 1, frame_cols = [(''quantity'', [x])]\<rparr> (spec_mapping [''quantity''])
     TARGET_COLS empty_frame
   = Inr \<lparr>frame_len = 1,
          frame_cols = [(''outlet'', [NaN]), (''date'', [NaN]), (''day'', [NaN]),
            (''guest_count'', [NaN]), (''category'', [NaN]), (''quantity'', [x]),
            (''cost_price'', [NA]), (''selling_price'', [NA]), (''total_sales'', [NA]),
            (''total_cost_price'', [NA]), (''profit'', [NA])]\<rparr>"
  unfolding TARGET_COLS_def empty_frame_def
  by (simp add: quantity_mapping ebind_Inr setitem_scalar_new setitem_series_first
      setitem_series_new frame_getitem_def del: build_out.simps
      add: build_out_None build_out_Some build_out.simps(1))

text \<open>
  Claim C1, at the sheet with the single header \<open>Quantity\<close> and one row whose cell is a
  number \<open>v\<close> with a fractional part, such as 2.5: \<open>pd.to_numeric\<close> keeps the number and the
  cast to \<open>Int64\<close> raises (\<open>TypeError\<close>: cannot safely cast non-equivalent float64 to int64).
  The Row Coercer then raises an error, against the claim that it raises on no cell content.
\<close>

theorem map_dataframe_raises_on_fraction:
  assumes "to_numeric lib [Val v] = Inr [Val v]" and "astype_Int64 lib [Val v] = Inl e"
  shows "\<exists>e'. map_dataframe lib \<lparr>frame_len = 1, frame_cols = [(LStr ''Quantity'', [Val v])]\<rparr> = Inl e'"
proof -
  let ?out = "\<lparr>frame_len = 1,
          frame_cols = [(''outlet'', [NaN]), (''date'', [NaN]), (''day'', [NaN]),
            (''guest_count'', [NaN]), (''category'', [NaN]), (''quantity'', [Val v]),
            (''cost_price'', [NA]), (''selling_price'', [NA]), (''total_sales'', [NA]),
            (''total_cost_price'', [NA]), (''profit'', [NA])]\<rparr> :: (string, 'a) frame"
  let ?ints = "\<lambda>s. ebind (to_numeric lib s) (astype_Int64 lib)"
  let ?raw = "\<lparr>frame_len = 1, frame_cols = [(LStr ''Quantity'', [Val v])]\<rparr> :: (label, 'a) frame"
  let ?df = "\<lparr>frame_len = 1, frame_cols = [(''quantity'', [Val v])]\<rparr> :: (string, 'a) frame"
  have n: "normalize_cols (frame_labels ?raw) = Inr [''quantity'']"
    by (simp add: frame_labels_def normalize_cols_def ebind_Inr quantity_header)
  have sc: "set_columns ?raw [''quantity''] = Inr ?df"
    by (simp add: set_columns_def)
  have fl: "frame_labels ?df = [''quantity'']"
    by (simp add: frame_labels_def)
  have run: "map_dataframe lib ?raw = coerce lib ?out"
    using n sc fl quantity_out [of "Val v"] by (rule map_dataframe_steps)
  have q: "frame_getitem ?out ''quantity'' = Inr [Val v]"
    by (simp add: frame_getitem_def)
  have bad: "?ints [Val v] = Inl e"
    using assms by (simp add: ebind_Inr)
  show ?thesis
  proof (cases "convert_column (to_datetime_date lib) ''date'' ?out")
    case (Inl e')
    then show ?thesis unfolding run coerce_def by (simp only: ebind_Inl) blast
  next
    case (Inr out1)
    have pos: "0 < frame_len ?out" by simp
    note step = convert_column_rows [OF pos Inr]
    from step(1) have pos1: "0 < frame_len out1" by simp
    from step(3) [of "''quantity''"] q have q1: "frame_getitem out1 ''quantity'' = Inr [Val v]"
      by simp
    have "''quantity'' \<in> set [''guest_count'', ''quantity'']" by simp
    from convert_columns_raises [OF pos1 this q1, of ?ints e] bad
    obtain e' where "convert_columns ?ints [''guest_count'', ''quantity''] out1 = Inl e'"
      by blast
    then show ?thesis unfolding run coerce_def by (simp only: Inr ebind_Inr ebind_Inl) blast
  qed
qed

theorem map_dataframe_raises_on_fraction_witness:
  "to_numeric \<lparr>to_datetime_date = (\<lambda>s. Inr (map (\<lambda>c. NaN) s)), to_numeric = Inr,
       astype_Int64 = (\<lambda>s. if s = [Val (5 / 2 :: rat)] then Inl TypeError else Inr s),
       str_of = (\<lambda>v. ''''), isna = (\<lambda>v. False)\<rparr> [Val (5 / 2)] = Inr [Val (5 / 2)]
   \<and> astype_Int64 \<lparr>to_datetime_date = (\<lambda>s. Inr (map (\<lambda>c. NaN) s)), to_numeric = Inr,
       astype_Int64 = (\<lambda>s. if s = [Val (5 / 2 :: rat)] then Inl TypeError else Inr s),
       str_of = (\<lambda>v. ''''), isna = (\<lambda>v. False)\<rparr> [Val (5 / 2)] = Inl TypeError
   \<and> (\<exists>e'. map_dataframe \<lparr>to_datetime_date = (\<lambda>s. Inr (map (\<lambda>c. NaN) s)), to_numeric = Inr,
       astype_Int64 = (\<lambda>s. if s = [Val (5 / 2 :: rat)] then Inl TypeError else Inr s),
       str_of = (\<lambda>v. ''''), isna = (\<lambda>v. False)\<rparr>
         \<lparr>frame_len = 1, frame_cols = [(LStr ''Quantity'', [Val (5 / 2)])]\<rparr> = Inl e')"
  using map_dataframe_raises_on_fraction [of "\<lparr>to_datetime_date = (\<lambda>s. Inr (map (\<lambda>c. NaN) s)), to_numeric = Inr,
       astype_Int64 = (\<lambda>s. if s = [Val (5 / 2 :: rat)] then Inl TypeError else Inr s),
       str_of = (\<lambda>v. ''''), isna = (\<lambda>v. False)\<rparr>" "5 / 2" TypeError]
  by simp

subsection \<open>A frame without rows\<close>

lemma put_column_same:
  assumes "list_all (\<lambda>p. snd p = s) (frame_cols f)" and "c \<in> set (frame_labels f)"
  shows "put_column f c s = f"
proof -
  have "map (\<lambda>p. if fst p = c then (c, s) else p) (frame_cols f) = frame_cols f"
    using assms(1) by (intro map_idI) (auto simp add: list_all_iff)
  then show ?thesis using assms(2) by (simp add: put_column_def)
qed

lemma frame_getitem_member:
  assumes "frame_getitem f c = Inr s"
  shows "(c, s) \<in> set (frame_cols f)"
proof -
  from assms obtain p where p: "filter (\<lambda>p. fst p = c) (frame_cols f) = [p]" and s: "s = snd p"
    by (auto simp add: frame_getitem_def split: list.splits)
  have "p \<in> set (filter (\<lambda>p. fst p = c) (frame_cols f))" by (simp add: p)
  then have "p \<in> set (frame_cols f)" and "fst p = c" by simp_all
  with s show ?thesis by (cases p) simp
qed

lemma convert_column_empty:
  assumes "frame_len f = 0" and "list_all (\<lambda>p. snd p = []) (frame_cols f)"
    and "\<And>r. conv [] = Inr r \<Longrightarrow> r = []"
    and "convert_column conv c f = Inr g"
  shows "g = f"
proof -
  from assms(4) obtain s where s: "frame_getitem f c = Inr s"
    and 1: "ebind (conv s) (\<lambda>r. Inr (setitem_series f c r)) = Inr g"
    unfolding convert_column_def by (rule ebind_returns)
  from 1 obtain r where r: "conv s = Inr r"
    and g: "Inr (setitem_series f c r) = (Inr g :: error + (string, 'a) frame)"
    by (rule ebind_returns)
  from frame_getitem_member [OF s] assms(2) have "s = []"
    by (auto simp add: list_all_iff)
  with r assms(3) have "r = []" by simp
  with g assms(1) have "g = put_column f c []"
    by (simp add: setitem_series_def ensure_valid_index_def align_def)
  also have "\<dots> = f"
    using assms(2) s by (intro put_column_same frame_getitem_labels)
  finally show ?thesis .
qed

lemma convert_columns_empty:
  assumes "frame_len f = 0" and "list_all (\<lambda>p. snd p = []) (frame_cols f)"
    and "\<And>r. conv [] = Inr r \<Longrightarrow> r = []"
    and "convert_columns conv cs f = Inr g"
  shows "g = f"
  using assms(4)
proof (induction cs)
  case Nil
  then show ?case by simp
next
  case (Cons c cs)
  from Cons.prems obtain h where h: "convert_column conv c f = Inr h"
    and rest: "convert_columns conv cs h = Inr g"
    by (auto elim: ebind_returns)
  from convert_column_empty [OF assms(1,2,3) h] have "h = f" .
  with rest Cons.IH show ?case by simp
qed

lemma build_out_unmapped:
  "build_out df Map.empty TARGET_COLS empty_frame
     = Inr \<lparr>frame_len = 0,
          frame_cols = [(''outlet'', []), (''date'', []), (''day'', []), (''guest_count'', []),
            (''category'', []), (''quantity'', []), (''cost_price'', []), (''selling_price'', []),
            (''total_sales'', []), (''total_cost_price'', []), (''profit'', [])]\<rparr>"
  unfolding TARGET_COLS_def empty_frame_def
  by (simp add: setitem_scalar_new del: build_out.simps
      add: build_out_None build_out.simps(1))

lemma set_columns_labels:
  "set_columns f hs = Inr g \<Longrightarrow> frame_labels g = hs"
  by (auto simp add: set_columns_def frame_labels_def split: if_splits)

text \<open>
  Claim C5 fails on every sheet none of whose headers matches a target (for instance the
  sheet with the one header \<open>x\<close>): every column of \<open>out\<close> is then the scalar \<open>pd.NA\<close> assigned
  to a frame without rows, and when the Row Coercer returns, the table it returns has the
  target columns in target order and no row, however many rows the sheet has. The
  conversions of pandas return a column on the index of their argument, so an empty column
  for an empty one.
\<close>

theorem map_dataframe_unmapped_no_rows:
  assumes mapper: "schema_mapper (frame_labels df0) = Inr m"
    and unmapped: "\<forall>t \<in> set TARGET_COLS. m t = None"
    and dates: "\<And>r. to_datetime_date lib [] = Inr r \<Longrightarrow> r = []"
    and numbers: "\<And>r. to_numeric lib [] = Inr r \<Longrightarrow> r = []"
    and ints: "\<And>r. astype_Int64 lib [] = Inr r \<Longrightarrow> r = []"
    and returns: "map_dataframe lib df0 = Inr out"
  shows "frame_len out = 0 \<and> frame_labels out = TARGET_COLS"
proof -
  let ?F = "\<lparr>frame_len = 0,
          frame_cols = [(''outlet'', []), (''date'', []), (''day'', []), (''guest_count'', []),
            (''category'', []), (''quantity'', []), (''cost_price'', []), (''selling_price'', []),
            (''total_sales'', []), (''total_cost_price'', []), (''profit'', [])]\<rparr> :: (string, 'a) frame"
  let ?ints = "\<lambda>s. ebind (to_numeric lib s) (astype_Int64 lib)"
  from returns obtain hs where hs: "normalize_cols (frame_labels df0) = Inr hs"
    and 1: "ebind (set_columns df0 hs) (\<lambda>df.
              ebind (build_col_map (frame_labels df)) (\<lambda>col_map.
              ebind (build_out df col_map TARGET_COLS empty_frame) (coerce lib))) = Inr out"
    unfolding map_dataframe_def by (rule ebind_returns)
  from 1 obtain df where df: "set_columns df0 hs = Inr df"
    and 2: "ebind (build_col_map (frame_labels df)) (\<lambda>col_map.
              ebind (build_out df col_map TARGET_COLS empty_frame) (coerce lib)) = Inr out"
    by (rule ebind_returns)
  from df have "frame_labels df = hs" by (rule set_columns_labels)
  moreover from mapper hs have "build_col_map hs = Inr m"
    by (simp add: schema_mapper_def ebind_Inr)
  ultimately have 3: "ebind (build_out df m TARGET_COLS empty_frame) (coerce lib) = Inr out"
    using 2 by (simp add: ebind_Inr)
  have "build_out df m TARGET_COLS empty_frame = build_out df Map.empty TARGET_COLS empty_frame"
    using unmapped by (intro build_out_cong) simp
  with 3 have c: "coerce lib ?F = Inr out"
    by (simp only: build_out_unmapped ebind_Inr)
  have len: "frame_len ?F = 0" by simp
  have emp: "list_all (\<lambda>p. snd p = []) (frame_cols ?F)" by simp
  have texts: "\<And>r. clean_text lib [] = Inr r \<Longrightarrow> r = []"
    by (auto simp add: clean_text_def)
  have ints': "\<And>r. ?ints [] = Inr r \<Longrightarrow> r = []"
    using numbers ints by (auto elim!: ebind_returns)
  from c obtain out1 where a: "convert_column (to_datetime_date lib) ''date'' ?F = Inr out1"
    and 4: "ebind (convert_columns ?ints [''guest_count'', ''quantity''] out1) (\<lambda>out2.
             ebind (convert_columns (to_numeric lib)
              [''cost_price'', ''selling_price'', ''total_sales'', ''total_cost_price'',
               ''profit''] out2) (\<lambda>out3.
             convert_columns (clean_text lib) [''outlet'', ''day'', ''category''] out3)) = Inr out"
    unfolding coerce_def by (rule ebind_returns)
  from convert_column_empty [OF len emp dates a] have o1: "out1 = ?F" .
  from 4 obtain out2 where b: "convert_columns ?ints [''guest_count'', ''quantity''] ?F = Inr out2"
    and 5: "ebind (convert_columns (to_numeric lib)
              [''cost_price'', ''selling_price'', ''total_sales'', ''total_cost_price'',
               ''profit''] out2) (\<lambda>out3.
             convert_columns (clean_text lib) [''outlet'', ''day'', ''category''] out3) = Inr out"
    unfolding o1 by (rule ebind_returns)
  from convert_columns_empty [OF len emp ints' b] have o2: "out2 = ?F" .
  from 5 obtain out3 where d: "convert_columns (to_numeric lib)
              [''cost_price'', ''selling_price'', ''total_sales'', ''total_cost_price'',
               ''profit''] ?F = Inr out3"
    and 6: "convert_columns (clean_text lib) [''outlet'', ''day'', ''category''] out3 = Inr out"
    unfolding o2 by (rule ebind_returns)
  from convert_columns_empty [OF len emp numbers d] have o3: "out3 = ?F" .
  from convert_columns_empty [OF len emp texts 6 [unfolded o3]] have "out = ?F" .
  then show ?thesis by (simp add: frame_labels_def TARGET_COLS_def)
qed

lemma x_header: "normalize_header ''x'' = ''x''"
  by code_simp

lemma x_mapping:
  "spec_mapping [''x''] ''outlet'' = None"
  "spec_mapping [''x''] ''date'' = None"
  "spec_mapping [''x''] ''day'' = None"
  "spec_mapping [''x''] ''guest_count'' = None"
  "spec_mapping [''x''] ''category'' = None"
  "spec_mapping [''x''] ''quantity'' = None"
  "spec_mapping [''x''] ''cost_price'' = None"
  "spec_mapping [''x''] ''selling_price'' = None"
  "spec_mapping [''x''] ''total_sales'' = None"
  "spec_mapping [''x''] ''total_cost_price'' = None"
  "spec_mapping [''x''] ''profit'' = None"
  by code_simp+

lemma x_coerce:
  "coerce \<lparr>to_datetime_date = Inr, to_numeric = Inr, astype_Int64 = Inr,
       str_of = (\<lambda>v :: unit. ''''), isna = (\<lambda>v. False)\<rparr>
     \<lparr>frame_len = 0,
          frame_cols = [(''outlet'', []), (''date'', []), (''day'', []), (''guest_count'', []),
            (''category'', []), (''quantity'', []), (''cost_price'', []), (''selling_price'', []),
            (''total_sales'', []), (''total_cost_price'', []), (''profit'', [])]\<rparr>
   = Inr \<lparr>frame_len = 0,
          frame_cols = [(''outlet'', []), (''date'', []), (''day'', []), (''guest_count'', []),
            (''category'', []), (''quantity'', []), (''cost_price'', []), (''selling_price'', []),
            (''total_sales'', []), (''total_cost_price'', []), (''profit'', [])]\<rparr>"
  by code_simp

text \<open>The sheet with the one header \<open>x\<close> and one row: no target is mapped, the Row Coercer
  returns, and the table it returns has no row.\<close>

theorem map_dataframe_unmapped_no_rows_witness:
  "(\<exists>m. schema_mapper (frame_labels \<lparr>frame_len = 1, frame_cols = [(LStr ''x'', [Str ''a'' :: unit cell])]\<rparr>) = Inr m
        \<and> list_all (\<lambda>t. m t = None) TARGET_COLS)
   \<and> (\<exists>out. map_dataframe \<lparr>to_datetime_date = Inr, to_numeric = Inr, astype_Int64 = Inr,
                  str_of = (\<lambda>v :: unit. ''''), isna = (\<lambda>v. False)\<rparr>
                \<lparr>frame_len = 1, frame_cols = [(LStr ''x'', [Str ''a''])]\<rparr> = Inr out
          \<and> frame_len out = 0 \<and> frame_labels out = TARGET_COLS)"
proof -
  let ?lib = "\<lparr>to_datetime_date = Inr, to_numeric = Inr, astype_Int64 = Inr,
                  str_of = (\<lambda>v :: unit. ''''), isna = (\<lambda>v. False)\<rparr>"
  let ?raw = "\<lparr>frame_len = 1, frame_cols = [(LStr ''x'', [Str ''a''])]\<rparr> :: (label, unit) frame"
  let ?df = "\<lparr>frame_len = 1, frame_cols = [(''x'', [Str ''a''])]\<rparr> :: (string, unit) frame"
  let ?m = "restrict_map (spec_mapping [''x'']) (set TARGET_COLS)"
  let ?F = "\<lparr>frame_len = 0,
          frame_cols = [(''outlet'', []), (''date'', []), (''day'', []), (''guest_count'', []),
            (''category'', []), (''quantity'', []), (''cost_price'', []), (''selling_price'', []),
            (''total_sales'', []), (''total_cost_price'', []), (''profit'', [])]\<rparr> :: (string, unit) frame"
  have n: "normalize_cols (frame_labels ?raw) = Inr [''x'']"
    by (simp add: frame_labels_def normalize_cols_def ebind_Inr x_header)
  have mp: "schema_mapper (frame_labels ?raw) = Inr ?m"
    unfolding schema_mapper_def n by (simp only: ebind_Inr build_col_map_def col_map_loop_empty)
  have none: "list_all (\<lambda>t. spec_mapping [''x''] t = None) TARGET_COLS"
    by (simp add: TARGET_COLS_def x_mapping)
  then have un: "list_all (\<lambda>t. ?m t = None) TARGET_COLS"
    by (simp add: list_all_iff restrict_map_def)
  then have un': "\<forall>t \<in> set TARGET_COLS. ?m t = None"
    by (simp only: list_all_iff)
  have sc: "set_columns ?raw [''x''] = Inr ?df"
    by (simp add: set_columns_def)
  have fl: "frame_labels ?df = [''x'']"
    by (simp add: frame_labels_def)
  have "build_out ?df (spec_mapping [''x'']) TARGET_COLS empty_frame
          = build_out ?df Map.empty TARGET_COLS empty_frame"
    using none by (intro build_out_cong) (simp add: list_all_iff)
  then have bo: "build_out ?df (spec_mapping [''x'']) TARGET_COLS empty_frame = Inr ?F"
    by (simp only: build_out_unmapped)
  have ret: "map_dataframe ?lib ?raw = Inr ?F"
    using map_dataframe_steps [OF n sc fl bo, of ?lib] by (simp only: x_coerce)
  from map_dataframe_unmapped_no_rows [OF mp un' _ _ _ ret]
  have "frame_len ?F = 0 \<and> frame_labels ?F = TARGET_COLS" by simp
  with ret have A: "\<exists>out. map_dataframe ?lib ?raw = Inr out \<and> frame_len out = 0
      \<and> frame_labels out = TARGET_COLS"
    by (intro exI [of _ ?F] conjI) simp_all
  from mp un have B: "\<exists>m. schema_mapper (frame_labels ?raw) = Inr m
        \<and> list_all (\<lambda>t. m t = None) TARGET_COLS"
    by (intro exI [of _ ?m] conjI)
  from B A show ?thesis by (rule conjI)
qed

subsection \<open>The sheet with the headers \<open>Outlet\<close>, \<open>Date\<close>, \<open>Qty\<close>\<close>

lemma odq_headers:
  "normalize_header ''Outlet'' = ''outlet''"
  "normalize_header ''Date'' = ''date''"
  "normalize_header ''Qty'' = ''qty''"
  by code_simp+

lemma odq_mapping:
  "spec_mapping [''outlet'', ''date'', ''qty''] ''outlet'' = Some ''outlet''"
  "spec_mapping [''outlet'', ''date'', ''qty''] ''date'' = Some ''date''"
  "spec_mapping [''outlet'', ''date'', ''qty''] ''day'' = None"
  "spec_mapping [''outlet'', ''date'', ''qty''] ''guest_count'' = None"
  "spec_mapping [''outlet'', ''date'', ''qty''] ''category'' = None"
  "spec_mapping [''outlet'', ''date'', ''qty''] ''quantity'' = None"
  "spec_mapping [''outlet'', ''date'', ''qty''] ''cost_price'' = None"
  "spec_mapping [''outlet'', ''date'', ''qty''] ''selling_price'' = None"
  "spec_mapping [''outlet'', ''date'', ''qty''] ''total_sales'' = None"
  "spec_mapping [''outlet'', ''date'', ''qty''] ''total_cost_price'' = None"
  "spec_mapping [''outlet'', ''date'', ''qty''] ''profit'' = None"
  by code_simp+

lemma odq_out:
  assumes "xs \<noteq> []"
  shows "build_out \<lparr>frame_len = length xs,
                    frame_cols = [(''outlet'', xs), (''date'', ys), (''qty'', zs)]\<rparr>
     (spec_mapping [''outlet'', ''date'', ''qty'']) TARGET_COLS empty_frame
   = Inr \<lparr>frame_len = length xs,
          frame_cols = [(''outlet'', xs), (''date'', align (length xs) ys),
            (''day'', replicate (length xs) NA), (''guest_count'', replicate (length xs) NA),
            (''category'', replicate (length xs) NA), (''quantity'', replicate (length xs) NA),
            (''cost_price'', replicate (length xs) NA),
            (''selling_price'', replicate (length xs) NA),
            (''total_sales'', replicate (length xs) NA),
            (''total_cost_price'', replicate (length xs) NA),
            (''profit'', replicate (length xs) NA)]\<rparr>"
  unfolding TARGET_COLS_def empty_frame_def using assms
  by (simp add: odq_mapping ebind_Inr setitem_scalar_new setitem_series_first
      setitem_series_new frame_getitem_def del: build_out.simps
      add: build_out_None build_out_Some build_out.simps(1))

lemma clean_text_NA:
  "clean_text lib (replicate n NA) = Inr (replicate n (Str ''<NA>''))"
proof -
  have "py_strip ''<NA>'' = ''<NA>''" by code_simp
  then show ?thesis by (simp add: clean_text_def)
qed

text \<open>
  Claim C2 fails on the sheet of the specification's own example, with the headers
  \<open>Outlet\<close>, \<open>Date\<close>, \<open>Qty\<close> and at least one row: \<open>day\<close> is left unmapped, and whenever the
  Row Coercer returns, every cell of the \<open>day\<close> column of its table is the text \<open><NA>\<close>, the
  string form of \<open>pd.NA\<close>, which is not the absent value.
\<close>

theorem unmapped_day_column_is_text:
  assumes rows: "xs \<noteq> []"
    and returns: "map_dataframe lib \<lparr>frame_len = length xs,
        frame_cols = [(LStr ''Outlet'', xs), (LStr ''Date'', ys), (LStr ''Qty'', zs)]\<rparr> = Inr out"
  shows "(\<exists>m. schema_mapper [LStr ''Outlet'', LStr ''Date'', LStr ''Qty''] = Inr m \<and> m ''day'' = None)
       \<and> frame_len out = length xs
       \<and> frame_getitem out ''day'' = Inr (replicate (length xs) (Str ''<NA>''))
       \<and> \<not> is_absent lib (Str ''<NA>'')"
proof -
  let ?hs = "[''outlet'', ''date'', ''qty'']"
  let ?n = "length xs"
  let ?raw = "\<lparr>frame_len = ?n,
        frame_cols = [(LStr ''Outlet'', xs), (LStr ''Date'', ys), (LStr ''Qty'', zs)]\<rparr>"
  let ?df = "\<lparr>frame_len = ?n, frame_cols = [(''outlet'', xs), (''date'', ys), (''qty'', zs)]\<rparr>"
  let ?out = "\<lparr>frame_len = ?n,
          frame_cols = [(''outlet'', xs), (''date'', align ?n ys),
            (''day'', replicate ?n NA), (''guest_count'', replicate ?n NA),
            (''category'', replicate ?n NA), (''quantity'', replicate ?n NA),
            (''cost_price'', replicate ?n NA), (''selling_price'', replicate ?n NA),
            (''total_sales'', replicate ?n NA), (''total_cost_price'', replicate ?n NA),
            (''profit'', replicate ?n NA)]\<rparr>"
  let ?ints = "\<lambda>s. ebind (to_numeric lib s) (astype_Int64 lib)"
  have n: "normalize_cols [LStr ''Outlet'', LStr ''Date'', LStr ''Qty''] = Inr ?hs"
    by (simp add: normalize_cols_def ebind_Inr odq_headers)
  then have n': "normalize_cols (frame_labels ?raw) = Inr ?hs"
    by (simp add: frame_labels_def)
  have mp: "schema_mapper [LStr ''Outlet'', LStr ''Date'', LStr ''Qty'']
      = Inr (restrict_map (spec_mapping ?hs) (set TARGET_COLS))"
    unfolding schema_mapper_def n by (simp only: ebind_Inr build_col_map_def col_map_loop_empty)
  have "restrict_map (spec_mapping ?hs) (set TARGET_COLS) ''day'' = None"
    by (simp add: restrict_map_def odq_mapping)
  with mp have A: "\<exists>m. schema_mapper [LStr ''Outlet'', LStr ''Date'', LStr ''Qty''] = Inr m
      \<and> m ''day'' = None"
    by (intro exI conjI)
  have sc: "set_columns ?raw ?hs = Inr ?df"
    by (simp add: set_columns_def)
  have fl: "frame_labels ?df = ?hs"
    by (simp add: frame_labels_def)
  from map_dataframe_steps [OF n' sc fl odq_out [OF rows], of lib] returns
  have c: "coerce lib ?out = Inr out" by simp
  have pos: "0 < frame_len ?out" using rows by simp
  have day: "frame_getitem ?out ''day'' = Inr (replicate ?n NA)"
    by (simp add: frame_getitem_def)
  from c obtain out1 where a: "convert_column (to_datetime_date lib) ''date'' ?out = Inr out1"
    and 4: "ebind (convert_columns ?ints [''guest_count'', ''quantity''] out1) (\<lambda>out2.
             ebind (convert_columns (to_numeric lib)
              [''cost_price'', ''selling_price'', ''total_sales'', ''total_cost_price'',
               ''profit''] out2) (\<lambda>out3.
             convert_columns (clean_text lib) [''outlet'', ''day'', ''category''] out3)) = Inr out"
    unfolding coerce_def by (rule ebind_returns)
  note s1 = convert_column_rows [OF pos a]
  from s1(1) rows have len1: "frame_len out1 = ?n" and pos1: "0 < frame_len out1" by simp_all
  from s1(3) [of "''day''"] day have day1: "frame_getitem out1 ''day'' = Inr (replicate ?n NA)"
    by simp
  from 4 obtain out2 where b: "convert_columns ?ints [''guest_count'', ''quantity''] out1 = Inr out2"
    and 5: "ebind (convert_columns (to_numeric lib)
              [''cost_price'', ''selling_price'', ''total_sales'', ''total_cost_price'',
               ''profit''] out2) (\<lambda>out3.
             convert_columns (clean_text lib) [''outlet'', ''day'', ''category''] out3) = Inr out"
    by (rule ebind_returns)
  note s2 = convert_columns_rows [OF pos1 b]
  from s2 len1 rows have len2: "frame_len out2 = ?n" and pos2: "0 < frame_len out2" by simp_all
  from s2 day1 have day2: "frame_getitem out2 ''day'' = Inr (replicate ?n NA)" by simp
  from 5 obtain out3 where d: "convert_columns (to_numeric lib)
              [''cost_price'', ''selling_price'', ''total_sales'', ''total_cost_price'',
               ''profit''] out2 = Inr out3"
    and 6: "convert_columns (clean_text lib) [''outlet'', ''day'', ''category''] out3 = Inr out"
    by (rule ebind_returns)
  note s3 = convert_columns_rows [OF pos2 d]
  from s3 len2 rows have len3: "frame_len out3 = ?n" and pos3: "0 < frame_len out3" by simp_all
  from s3 day2 have day3: "frame_getitem out3 ''day'' = Inr (replicate ?n NA)" by simp
  from 6 obtain o1 where t1: "convert_column (clean_text lib) ''outlet'' out3 = Inr o1"
    and 7: "convert_columns (clean_text lib) [''day'', ''category''] o1 = Inr out"
    by (auto elim: ebind_returns)
  note s4 = convert_column_rows [OF pos3 t1]
  from s4(1) len3 rows have len4: "frame_len o1 = ?n" and pos4: "0 < frame_len o1" by simp_all
  from s4(3) [of "''day''"] day3 have day4: "frame_getitem o1 ''day'' = Inr (replicate ?n NA)"
    by simp
  from 7 obtain o2 where t2: "convert_column (clean_text lib) ''day'' o1 = Inr o2"
    and 8: "convert_columns (clean_text lib) [''category''] o2 = Inr out"
    by (auto elim: ebind_returns)
  note s5 = convert_column_rows [OF pos4 t2]
  from s5(1) len4 rows have len5: "frame_len o2 = ?n" and pos5: "0 < frame_len o2" by simp_all
  from s5(4) day4 len4 have day5: "frame_getitem o2 ''day'' = Inr (replicate ?n (Str ''<NA>''))"
    by (auto simp add: clean_text_NA align_def)
  note s6 = convert_columns_rows [OF pos5 8]
  from s6 len5 have B: "frame_len out = ?n" by simp
  from s6 day5 have C: "frame_getitem out ''day'' = Inr (replicate ?n (Str ''<NA>''))" by simp
  have D: "\<not> is_absent lib (Str ''<NA>'')" by simp
  from A B C D show ?thesis by (intro conjI)
qed

theorem unmapped_day_column_is_text_witness:
  "[Str ''A''] \<noteq> ([] :: unit cell list)
   \<and> map_dataframe \<lparr>to_datetime_date = Inr, to_numeric = Inr, astype_Int64 = Inr,
                  str_of = (\<lambda>v :: unit. ''''), isna = (\<lambda>v. False)\<rparr>
        \<lparr>frame_len = length [Str ''A'' :: unit cell],
         frame_cols = [(LStr ''Outlet'', [Str ''A'']), (LStr ''Date'', [Str ''05-03-2024'']),
                       (LStr ''Qty'', [Str ''3''])]\<rparr>
      = Inr \<lparr>frame_len = 1,
          frame_cols = [(''outlet'', [Str ''A'']), (''date'', [Str ''05-03-2024'']),
            (''day'', [Str ''<NA>'']), (''guest_count'', [NA]),
            (''category'', [Str ''<NA>'']), (''quantity'', [NA]),
            (''cost_price'', [NA]), (''selling_price'', [NA]),
            (''total_sales'', [NA]), (''total_cost_price'', [NA]), (''profit'', [NA])]\<rparr>
   \<and> frame_getitem \<lparr>frame_len = 1,
          frame_cols = [(''outlet'', [Str ''A'']), (''date'', [Str ''05-03-2024'']),
            (''day'', [Str ''<NA>'' :: unit cell]), (''guest_count'', [NA]),
            (''category'', [Str ''<NA>'']), (''quantity'', [NA]),
            (''cost_price'', [NA]), (''selling_price'', [NA]),
            (''total_sales'', [NA]), (''total_cost_price'', [NA]), (''profit'', [NA])]\<rparr> ''day''
      = Inr (replicate (length [Str ''A'' :: unit cell]) (Str ''<NA>''))"
proof -
  let ?lib = "\<lparr>to_datetime_date = Inr, to_numeric = Inr, astype_Int64 = Inr,
                  str_of = (\<lambda>v :: unit. ''''), isna = (\<lambda>v. False)\<rparr>"
  let ?raw = "\<lparr>frame_len = length [Str ''A'' :: unit cell],
         frame_cols = [(LStr ''Outlet'', [Str ''A'']), (LStr ''Date'', [Str ''05-03-2024'']),
                       (LStr ''Qty'', [Str ''3''])]\<rparr>"
  let ?res = "\<lparr>frame_len = 1,
          frame_cols = [(''outlet'', [Str ''A'']), (''date'', [Str ''05-03-2024'']),
            (''day'', [Str ''<NA>'' :: unit cell]), (''guest_count'', [NA]),
            (''category'', [Str ''<NA>'']), (''quantity'', [NA]),
            (''cost_price'', [NA]), (''selling_price'', [NA]),
            (''total_sales'', [NA]), (''total_cost_price'', [NA]), (''profit'', [NA])]\<rparr>"
  have ne: "[Str ''A''] \<noteq> ([] :: unit cell list)" by simp
  let ?df = "\<lparr>frame_len = length [Str ''A'' :: unit cell],
         frame_cols = [(''outlet'', [Str ''A'']), (''date'', [Str ''05-03-2024'']),
                       (''qty'', [Str ''3''])]\<rparr>"
  have n: "normalize_cols (frame_labels ?raw) = Inr [''outlet'', ''date'', ''qty'']"
    by (simp add: frame_labels_def normalize_cols_def ebind_Inr odq_headers)
  have sc: "set_columns ?raw [''outlet'', ''date'', ''qty''] = Inr ?df"
    by (simp add: set_columns_def)
  have fl: "frame_labels ?df = [''outlet'', ''date'', ''qty'']"
    by (simp add: frame_labels_def)
  have co: "coerce ?lib \<lparr>frame_len = 1,
          frame_cols = [(''outlet'', [Str ''A'']), (''date'', [Str ''05-03-2024'']),
            (''day'', [NA]), (''guest_count'', [NA]), (''category'', [NA]), (''quantity'', [NA]),
            (''cost_price'', [NA]), (''selling_price'', [NA]),
            (''total_sales'', [NA]), (''total_cost_price'', [NA]), (''profit'', [NA])]\<rparr>
      = Inr ?res"
    by code_simp
  from map_dataframe_steps [OF n sc fl odq_out [OF ne], of ?lib] co
  have ret: "map_dataframe ?lib ?raw = Inr ?res"
    by (simp add: align_def)
  from unmapped_day_column_is_text [OF ne ret]
  have "frame_getitem ?res ''day'' = Inr (replicate (length [Str ''A'' :: unit cell]) (Str ''<NA>''))"
    by (elim conjE)
  with ne ret show ?thesis by (intro conjI)
qed

section \<open>Properties of the read path\<close>




subsection \<open>Integers that a float holds\<close>

















end
